theory Spec2Isabelle
  imports Complex_Main "HOL-Library.Word"
begin

section \<open>Data model of SceneManager.cpp\<close>

text \<open>
  The values of the C++ types \<open>float\<close> and \<open>double\<close> are modelled by
  \<^typ>\<open>real\<close>; infinities and NaN are not represented. The arithmetic of
  SceneManager.cpp and of the scroll callback is exact; the conversions between
  \<open>double\<close> and \<open>float\<close> in the pointer callback round. Machine integers that are
  converted between signedness are words; loop indices, which stay far below the limits
  of \<open>int\<close>, are \<^typ>\<open>int\<close>.
\<close>

type_synonym GLuint = "32 word"

type_synonym vec2 = "real \<times> real"
type_synonym vec3 = "real \<times> real \<times> real"
type_synonym vec4 = "real \<times> real \<times> real \<times> real"

text \<open>A \<open>glm::mat4\<close> is column-major: four columns, each a \<open>vec4\<close>.\<close>

type_synonym mat4 = "vec4 \<times> vec4 \<times> vec4 \<times> vec4"

text \<open>
  Undefined behaviour of the C++ program is a value of the model: a call through a null
  pointer, an access to the array \<open>m_textureIDs\<close> outside its bounds (with the
  offending index), and a floating-point value outside the range of its type.
\<close>

datatype error = NullPointerDereference | ArrayIndexOutOfBounds int | FloatOutOfRange

text \<open>
  \<open>TEXTURE_INFO\<close> and \<open>OBJECT_MATERIAL\<close> are declared in SceneManager.h. The field
  \<open>ID\<close> is a \<open>GLuint\<close>: \<open>DestroyGLTextures\<close> passes its address to
  \<open>glGenTextures\<close>, which takes a \<open>GLuint*\<close>.
\<close>

record TEXTURE_INFO =
  ID :: GLuint
  tag :: string

record OBJECT_MATERIAL =
  diffuseColor :: vec3
  specularColor :: vec3
  shininess :: real
  tag :: string

text \<open>
  The class \<open>ShaderManager\<close> is not part of SceneManager.cpp. An object of the class
  is modelled by the calls it has received, oldest first.
\<close>

datatype uniform_call =
    setMat4Value string mat4
  | setIntValue string int
  | setVec4Value string vec4
  | setSampler2DValue string int
  | setVec2Value string vec2
  | setVec3Value string vec3
  | setFloatValue string real

type_synonym ShaderManager = "uniform_call list"

text \<open>
  The calls of OpenGL and of the image decoder that \<open>CreateGLTexture\<close> makes, and the
  draw calls on the mesh library \<open>ShapeMeshes\<close> that \<open>RenderJam\<close> makes. A draw
  uses the uniforms staged in the shader at that moment, so the model records the shader
  manager with each draw.
\<close>

datatype gl_pname =
  GL_TEXTURE_WRAP_S | GL_TEXTURE_WRAP_T | GL_TEXTURE_MIN_FILTER | GL_TEXTURE_MAG_FILTER

datatype gl_param = GL_REPEAT | GL_LINEAR

datatype gl_format = GL_RGB8 | GL_RGBA8

datatype gl_call =
    glGenTextures GLuint
  | glBindTexture GLuint
  | glTexParameteri gl_pname gl_param
  | glTexImage2D gl_format int int
  | glGenerateMipmap
  | stbi_image_free

datatype box_side = right | bottom | left | front

datatype mesh_draw =
    DrawBoxMesh
  | DrawBoxMeshSide box_side
  | DrawCylinderMesh bool bool bool
  | DrawExtraTorusMesh1

text \<open>What \<open>stbi_load\<close> returns for a file that it can decode.\<close>

record stbi_image =
  width :: int
  height :: int
  colorChannels :: int

text \<open>
  The members of \<open>SceneManager\<close>. \<open>m_pShaderManager\<close> is a pointer that may be
  null. \<open>m_textureIDs\<close> is a C array; the list holds all its elements, registered or
  not, and \<open>m_loadedTextures\<close> counts the registered ones.
\<close>

record SceneManager =
  m_pShaderManager :: "ShaderManager option"
  m_basicMeshes :: "(mesh_draw \<times> ShaderManager option) list"
  m_textureIDs :: "TEXTURE_INFO list"
  m_loadedTextures :: int
  m_objectMaterials :: "OBJECT_MATERIAL list"
  gl_calls :: "gl_call list"

text \<open>
  Modelled from the spec: the length of the array \<open>m_textureIDs\<close>, which SceneManager.h
  declares and which is not among the source files. The spec caps the texture registry at
  16 entries, and the comments of \<open>BindGLTextures\<close> and \<open>LoadSceneTextures\<close> speak of
  16 slots.
\<close>

definition MAX_TEXTURES :: nat where
  "MAX_TEXTURES = 16"

definition g_ModelName :: string where "g_ModelName = ''model''"
definition g_ColorValueName :: string where "g_ColorValueName = ''objectColor''"
definition g_TextureValueName :: string where "g_TextureValueName = ''objectTexture''"
definition g_UseTextureName :: string where "g_UseTextureName = ''bUseTexture''"

text \<open>Reading and writing \<open>m_textureIDs[i]\<close>.\<close>

definition texture_at :: "TEXTURE_INFO list \<Rightarrow> int \<Rightarrow> error + TEXTURE_INFO" where
  "texture_at a i =
     (if 0 \<le> i \<and> i < int (length a) then Inr (a ! nat i) else Inl (ArrayIndexOutOfBounds i))"

definition texture_store ::
  "TEXTURE_INFO list \<Rightarrow> int \<Rightarrow> (TEXTURE_INFO \<Rightarrow> TEXTURE_INFO) \<Rightarrow> error + TEXTURE_INFO list" where
  "texture_store a i f =
     (if 0 \<le> i \<and> i < int (length a) then Inr (a[nat i := f (a ! nat i)])
      else Inl (ArrayIndexOutOfBounds i))"

section \<open>The texture registry\<close>

text \<open>
  \<open>CreateGLTexture\<close>. The result of \<open>stbi_load\<close> on the file and the texture name
  that \<open>glGenTextures\<close> hands out come from outside the program and are parameters.
  Console output is not modelled.
\<close>

definition gl :: "gl_call list \<Rightarrow> SceneManager \<Rightarrow> SceneManager" where
  "gl cs s = s\<lparr>gl_calls := gl_calls s @ cs\<rparr>"

text \<open>The statements of \<open>CreateGLTexture\<close> that follow the upload of the pixels.\<close>

definition CreateGLTexture_register ::
  "GLuint \<Rightarrow> string \<Rightarrow> SceneManager \<Rightarrow> error + (bool \<times> SceneManager)" where
  "CreateGLTexture_register textureID tg s =
     (let s1 = gl [glGenerateMipmap, stbi_image_free, glBindTexture 0] s
      in case texture_store (m_textureIDs s1) (m_loadedTextures s1)
                (\<lambda>t. t\<lparr>ID := textureID, TEXTURE_INFO.tag := tg\<rparr>) of
           Inl e \<Rightarrow> Inl e
         | Inr a \<Rightarrow>
             Inr (True, s1\<lparr>m_textureIDs := a, m_loadedTextures := m_loadedTextures s1 + 1\<rparr>))"

definition CreateGLTexture ::
  "(string \<Rightarrow> stbi_image option) \<Rightarrow> GLuint \<Rightarrow> string \<Rightarrow> string \<Rightarrow> SceneManager
     \<Rightarrow> error + (bool \<times> SceneManager)" where
  "CreateGLTexture stbi_load gen filename tg s =
     (case stbi_load filename of
        Some img \<Rightarrow>
          (let textureID = gen;
               s1 = gl [glGenTextures textureID, glBindTexture textureID,
                        glTexParameteri GL_TEXTURE_WRAP_S GL_REPEAT,
                        glTexParameteri GL_TEXTURE_WRAP_T GL_REPEAT,
                        glTexParameteri GL_TEXTURE_MIN_FILTER GL_LINEAR,
                        glTexParameteri GL_TEXTURE_MAG_FILTER GL_LINEAR] s
           in if colorChannels img = 3 then
                CreateGLTexture_register textureID tg
                  (gl [glTexImage2D GL_RGB8 (width img) (height img)] s1)
              else if colorChannels img = 4 then
                CreateGLTexture_register textureID tg
                  (gl [glTexImage2D GL_RGBA8 (width img) (height img)] s1)
              else Inr (False, s1))
      | None \<Rightarrow> Inr (False, s))"

text \<open>
  A sequence of calls of \<open>CreateGLTexture\<close>, each with the texture name that OpenGL
  hands out, the file and the tag, as \<open>LoadSceneTextures\<close> makes them one after the
  other. The boolean that a call returns is dropped, as the caller drops it.
\<close>

fun CreateGLTexture_calls ::
  "(string \<Rightarrow> stbi_image option) \<Rightarrow> (GLuint \<times> string \<times> string) list \<Rightarrow> SceneManager
     \<Rightarrow> error + SceneManager" where
  "CreateGLTexture_calls stbi_load [] s = Inr s"
| "CreateGLTexture_calls stbi_load ((gen, filename, tg) # cs) s =
     (case CreateGLTexture stbi_load gen filename tg s of
        Inl e \<Rightarrow> Inl e
      | Inr (bReturn, s') \<Rightarrow> CreateGLTexture_calls stbi_load cs s')"

text \<open>
  \<open>FindTextureID\<close> and \<open>FindTextureSlot\<close>. The loop state is the triple of the
  local variables; the \<open>int\<close> that \<open>FindTextureID\<close> returns is the \<open>GLuint\<close> of the
  entry converted to \<open>int\<close>.
\<close>

function FindTextureID_while ::
  "SceneManager \<Rightarrow> string \<Rightarrow> int \<times> int \<times> bool \<Rightarrow> error + (int \<times> int \<times> bool)" where
  "FindTextureID_while s tg (textureID, index, bFound) =
     (if index < m_loadedTextures s \<and> bFound = False then
        (case texture_at (m_textureIDs s) index of
           Inl e \<Rightarrow> Inl e
         | Inr t \<Rightarrow>
             if TEXTURE_INFO.tag t = tg
             then FindTextureID_while s tg (sint (ID t), index, True)
             else FindTextureID_while s tg (textureID, index + 1, bFound))
      else Inr (textureID, index, bFound))"
  by pat_completeness auto
termination
  by (relation "measure (\<lambda>(s, tg, textureID, index, bFound).
        (if bFound then 0 else 1 + nat (m_loadedTextures s - index)))") auto

declare FindTextureID_while.simps [simp del]

definition FindTextureID :: "SceneManager \<Rightarrow> string \<Rightarrow> error + int" where
  "FindTextureID s tg =
     (case FindTextureID_while s tg (- 1, 0, False) of
        Inl e \<Rightarrow> Inl e
      | Inr (textureID, index, bFound) \<Rightarrow> Inr textureID)"

function FindTextureSlot_while ::
  "SceneManager \<Rightarrow> string \<Rightarrow> int \<times> int \<times> bool \<Rightarrow> error + (int \<times> int \<times> bool)" where
  "FindTextureSlot_while s tg (textureSlot, index, bFound) =
     (if index < m_loadedTextures s \<and> bFound = False then
        (case texture_at (m_textureIDs s) index of
           Inl e \<Rightarrow> Inl e
         | Inr t \<Rightarrow>
             if TEXTURE_INFO.tag t = tg
             then FindTextureSlot_while s tg (index, index, True)
             else FindTextureSlot_while s tg (textureSlot, index + 1, bFound))
      else Inr (textureSlot, index, bFound))"
  by pat_completeness auto
termination
  by (relation "measure (\<lambda>(s, tg, textureSlot, index, bFound).
        (if bFound then 0 else 1 + nat (m_loadedTextures s - index)))") auto

declare FindTextureSlot_while.simps [simp del]

definition FindTextureSlot :: "SceneManager \<Rightarrow> string \<Rightarrow> error + int" where
  "FindTextureSlot s tg =
     (case FindTextureSlot_while s tg (- 1, 0, False) of
        Inl e \<Rightarrow> Inl e
      | Inr (textureSlot, index, bFound) \<Rightarrow> Inr textureSlot)"

section \<open>The material registry\<close>

text \<open>
  \<open>FindMaterial\<close>. The out-parameter \<open>material\<close> is passed in and returned with the
  result. Only three fields are copied on a match; the tag of \<open>material\<close> is not. The
  index starts at zero and only grows, so its comparison with the unsigned \<open>size()\<close>
  is the comparison of the numbers.
\<close>

function FindMaterial_while ::
  "SceneManager \<Rightarrow> string \<Rightarrow> int \<times> bool \<times> OBJECT_MATERIAL \<Rightarrow> int \<times> bool \<times> OBJECT_MATERIAL" where
  "FindMaterial_while s tg (index, bFound, material) =
     (if 0 \<le> index \<and> index < int (length (m_objectMaterials s)) \<and> bFound = False then
        (if OBJECT_MATERIAL.tag (m_objectMaterials s ! nat index) = tg
         then FindMaterial_while s tg
                (index, True,
                 material\<lparr>diffuseColor := diffuseColor (m_objectMaterials s ! nat index),
                          specularColor := specularColor (m_objectMaterials s ! nat index),
                          shininess := shininess (m_objectMaterials s ! nat index)\<rparr>)
         else FindMaterial_while s tg (index + 1, bFound, material))
      else (index, bFound, material))"
  by pat_completeness auto
termination
  by (relation "measure (\<lambda>(s, tg, index, bFound, material).
        (if bFound then 0 else 1 + nat (int (length (m_objectMaterials s)) - index)))") auto

declare FindMaterial_while.simps [simp del]

definition FindMaterial ::
  "SceneManager \<Rightarrow> string \<Rightarrow> OBJECT_MATERIAL \<Rightarrow> bool \<times> OBJECT_MATERIAL" where
  "FindMaterial s tg material =
     (if length (m_objectMaterials s) = 0 then (False, material)
      else (case FindMaterial_while s tg (0, False, material) of
              (index, bFound, material') \<Rightarrow> (True, material')))"

text \<open>\<open>DefineObjectMaterials\<close>: six calls of \<open>push_back\<close>.\<close>

definition DefineObjectMaterials :: "SceneManager \<Rightarrow> SceneManager" where
  "DefineObjectMaterials s =
     (let pacifierMaterial = \<lparr>diffuseColor = (1.0, 0.85, 0.2), specularColor = (0.8, 0.7, 0.3),
            shininess = 32.0, tag = ''pacifier_material''\<rparr>;
          floorMaterial = \<lparr>diffuseColor = (0.7, 0.7, 0.7), specularColor = (0.3, 0.3, 0.3),
            shininess = 2.0, tag = ''floor_material''\<rparr>;
          glassMaterial = \<lparr>diffuseColor = (0.2, 0.6, 0.2), specularColor = (1.0, 1.0, 1.0),
            shininess = 128.0, tag = ''glass''\<rparr>;
          metalLidMaterial = \<lparr>diffuseColor = (0.1, 0.3, 0.1), specularColor = (0.5, 0.5, 0.5),
            shininess = 64.0, tag = ''metal_lid_material''\<rparr>;
          plasticBottleMaterial = \<lparr>diffuseColor = (0.95, 0.85, 0.9),
            specularColor = (0.4, 0.4, 0.4), shininess = 5.0,
            tag = ''plastic_bottle_material''\<rparr>;
          brownGlassMaterial = \<lparr>diffuseColor = (0.5, 0.3, 0.1), specularColor = (0.3, 0.3, 0.3),
            shininess = 128.0, tag = ''brown_glass_material''\<rparr>
      in s\<lparr>m_objectMaterials := m_objectMaterials s @
            [pacifierMaterial, floorMaterial, glassMaterial, metalLidMaterial,
             plasticBottleMaterial, brownGlassMaterial]\<rparr>)"

section \<open>The GLM functions that SetTransformations calls\<close>

text \<open>
  GLM is a library outside the repository. The definitions follow its functions
  \<open>radians\<close>, \<open>scale\<close>, \<open>rotate\<close>, \<open>translate\<close> (each applied to the identity
  matrix, as \<open>glm/gtx/transform.hpp\<close> does) and the product of two \<open>mat4\<close>.
\<close>

definition glm_radians :: "real \<Rightarrow> real" where
  "glm_radians degrees = degrees * (pi / 180)"

definition glm_scale :: "vec3 \<Rightarrow> mat4" where
  "glm_scale v = (case v of (x, y, z) \<Rightarrow>
     ((x, 0, 0, 0), (0, y, 0, 0), (0, 0, z, 0), (0, 0, 0, 1)))"

definition glm_translate :: "vec3 \<Rightarrow> mat4" where
  "glm_translate v = (case v of (x, y, z) \<Rightarrow>
     ((1, 0, 0, 0), (0, 1, 0, 0), (0, 0, 1, 0), (x, y, z, 1)))"

definition glm_normalize :: "vec3 \<Rightarrow> vec3" where
  "glm_normalize v = (case v of (x, y, z) \<Rightarrow>
     (let n = sqrt (x * x + y * y + z * z) in (x / n, y / n, z / n)))"

definition glm_rotate :: "real \<Rightarrow> vec3 \<Rightarrow> mat4" where
  "glm_rotate angle v =
     (let c = cos angle; s = sin angle
      in case glm_normalize v of (ax, ay, az) \<Rightarrow>
           (let tx = (1 - c) * ax; ty = (1 - c) * ay; tz = (1 - c) * az
            in ((c + tx * ax, tx * ay + s * az, tx * az - s * ay, 0),
                (ty * ax - s * az, c + ty * ay, ty * az + s * ax, 0),
                (tz * ax + s * ay, tz * ay - s * ax, c + tz * az, 0),
                (0, 0, 0, 1))))"

text \<open>The product of a matrix and a column vector, and of two matrices.\<close>

definition mat4_apply :: "mat4 \<Rightarrow> vec4 \<Rightarrow> vec4" where
  "mat4_apply m v =
     (case m of ((a0, a1, a2, a3), (b0, b1, b2, b3), (c0, c1, c2, c3), (d0, d1, d2, d3)) \<Rightarrow>
      case v of (x, y, z, w) \<Rightarrow>
        (a0 * x + b0 * y + c0 * z + d0 * w,
         a1 * x + b1 * y + c1 * z + d1 * w,
         a2 * x + b2 * y + c2 * z + d2 * w,
         a3 * x + b3 * y + c3 * z + d3 * w))"

definition mat4_mul :: "mat4 \<Rightarrow> mat4 \<Rightarrow> mat4" where
  "mat4_mul m1 m2 =
     (case m2 of (c0, c1, c2, c3) \<Rightarrow>
        (mat4_apply m1 c0, mat4_apply m1 c1, mat4_apply m1 c2, mat4_apply m1 c3))"

section \<open>The setters of the shader state\<close>

definition SetTransformations ::
  "vec3 \<Rightarrow> real \<Rightarrow> real \<Rightarrow> real \<Rightarrow> vec3 \<Rightarrow> SceneManager \<Rightarrow> SceneManager" where
  "SetTransformations scaleXYZ XrotationDegrees YrotationDegrees ZrotationDegrees positionXYZ s =
     (let scale = glm_scale scaleXYZ;
          rotationX = glm_rotate (glm_radians XrotationDegrees) (1, 0, 0);
          rotationY = glm_rotate (glm_radians YrotationDegrees) (0, 1, 0);
          rotationZ = glm_rotate (glm_radians ZrotationDegrees) (0, 0, 1);
          translation = glm_translate positionXYZ;
          modelView =
            mat4_mul (mat4_mul (mat4_mul (mat4_mul translation rotationZ) rotationY) rotationX)
              scale
      in case m_pShaderManager s of
           Some sm \<Rightarrow> s\<lparr>m_pShaderManager := Some (sm @ [setMat4Value g_ModelName modelView])\<rparr>
         | None \<Rightarrow> s)"

definition SetShaderColor :: "real \<Rightarrow> real \<Rightarrow> real \<Rightarrow> real \<Rightarrow> SceneManager \<Rightarrow> SceneManager" where
  "SetShaderColor redColorValue greenColorValue blueColorValue alphaValue s =
     (let currentColor = (redColorValue, greenColorValue, blueColorValue, alphaValue)
      in case m_pShaderManager s of
           Some sm \<Rightarrow>
             s\<lparr>m_pShaderManager := Some (sm @ [setIntValue g_UseTextureName 0,
                                               setVec4Value g_ColorValueName currentColor])\<rparr>
         | None \<Rightarrow> s)"

definition SetShaderTexture :: "string \<Rightarrow> SceneManager \<Rightarrow> error + SceneManager" where
  "SetShaderTexture textureTag s =
     (case m_pShaderManager s of
        Some sm \<Rightarrow>
          (case FindTextureSlot s textureTag of
             Inl e \<Rightarrow> Inl e
           | Inr textureID \<Rightarrow>
               Inr (s\<lparr>m_pShaderManager :=
                         Some (sm @ [setIntValue g_UseTextureName 1,
                                     setSampler2DValue g_TextureValueName textureID])\<rparr>))
      | None \<Rightarrow> Inr s)"

definition SetTextureUVScale :: "real \<Rightarrow> real \<Rightarrow> SceneManager \<Rightarrow> SceneManager" where
  "SetTextureUVScale u v s =
     (case m_pShaderManager s of
        Some sm \<Rightarrow> s\<lparr>m_pShaderManager := Some (sm @ [setVec2Value ''UVscale'' (u, v)])\<rparr>
      | None \<Rightarrow> s)"

text \<open>
  \<open>SetShaderMaterial\<close>. The local variable \<open>material\<close> is not initialised; its
  contents before the call of \<open>FindMaterial\<close> are the parameter \<open>junk\<close>. The three
  calls through \<open>m_pShaderManager\<close> are not guarded by a test of the pointer.
\<close>

definition SetShaderMaterial ::
  "OBJECT_MATERIAL \<Rightarrow> string \<Rightarrow> SceneManager \<Rightarrow> error + SceneManager" where
  "SetShaderMaterial junk materialTag s =
     (if length (m_objectMaterials s) > 0 then
        (case FindMaterial s materialTag junk of
           (bReturn, material) \<Rightarrow>
             if bReturn = True then
               (case m_pShaderManager s of
                  None \<Rightarrow> Inl NullPointerDereference
                | Some sm \<Rightarrow>
                    Inr (s\<lparr>m_pShaderManager :=
                      Some (sm @ [setVec3Value ''material.diffuseColor'' (diffuseColor material),
                                  setVec3Value ''material.specularColor'' (specularColor material),
                                  setFloatValue ''material.shininess'' (shininess material)])\<rparr>))
             else Inr s)
      else Inr s)"

section \<open>RenderJam\<close>

text \<open>
  A draw call on \<open>m_basicMeshes\<close>, and the sequencing of calls that may end in undefined
  behaviour.
\<close>

definition draw :: "mesh_draw \<Rightarrow> SceneManager \<Rightarrow> SceneManager" where
  "draw d s = s\<lparr>m_basicMeshes := m_basicMeshes s @ [(d, m_pShaderManager s)]\<rparr>"

definition bind_err :: "error + 'a \<Rightarrow> ('a \<Rightarrow> error + 'b) \<Rightarrow> error + 'b" where
  "bind_err m f = (case m of Inl e \<Rightarrow> Inl e | Inr x \<Rightarrow> f x)"

text \<open>
  \<open>RenderJam\<close> is one function in the source; the model follows its five blocks, each
  between a comment \<open>Start of ...\<close> and a comment \<open>End of ...\<close>. \<open>RenderScene\<close> calls
  it as \<open>RenderJam(9.0, 0.001, -4.0)\<close>.
\<close>

definition RenderJam_body ::
  "real \<Rightarrow> real \<Rightarrow> real \<Rightarrow> OBJECT_MATERIAL \<Rightarrow> SceneManager \<Rightarrow> error + SceneManager" where
  "RenderJam_body Xpos Ypos Zpos junk s =
     (let scaleXYZ = (6.0, 3.0, 6.0);
          XrotationDegrees = 0.0;
          YrotationDegrees = - 15.0;
          ZrotationDegrees = 0.0;
          positionXYZ = (0.0 + Xpos, 2.5 + Ypos, 0.0 + Zpos);
          s = SetTransformations scaleXYZ XrotationDegrees YrotationDegrees ZrotationDegrees
                positionXYZ s;
          s = SetTextureUVScale 1 1 s
      in bind_err (SetShaderTexture ''Jam_2'' s) (\<lambda>s.
         let s = draw (DrawBoxMeshSide right) s;
             s = SetTextureUVScale 1 1 s
         in bind_err (SetShaderTexture ''Jam'' s) (\<lambda>s.
         let s = draw (DrawBoxMeshSide bottom) s;
             s = SetTextureUVScale 1 1 s
         in bind_err (SetShaderTexture ''Nutrition_facts'' s) (\<lambda>s.
         let s = draw (DrawBoxMeshSide left) s;
             s = SetShaderColor 0.28 0.18 0.10 1.0 s
         in bind_err (SetShaderMaterial junk ''brown_glass_material'' s) (\<lambda>s.
         Inr (draw (DrawBoxMeshSide front) s))))))"

definition RenderJam_base ::
  "real \<Rightarrow> real \<Rightarrow> real \<Rightarrow> OBJECT_MATERIAL \<Rightarrow> SceneManager \<Rightarrow> error + SceneManager" where
  "RenderJam_base Xpos Ypos Zpos junk s =
     (let scaleXYZ = (6.0, 1.0, 6.0);
          XrotationDegrees = 0.0;
          YrotationDegrees = - 15.0;
          ZrotationDegrees = 0.0;
          positionXYZ = (0.0 + Xpos, 0.50 + Ypos, 0.0 + Zpos);
          s = SetTransformations scaleXYZ XrotationDegrees YrotationDegrees ZrotationDegrees
                positionXYZ s;
          s = SetShaderColor 0.28 0.18 0.10 1.0 s
      in bind_err (SetShaderMaterial junk ''brown_glass_material'' s) (\<lambda>s.
         Inr (draw DrawBoxMesh s)))"

definition RenderJam_upper_body ::
  "real \<Rightarrow> real \<Rightarrow> real \<Rightarrow> OBJECT_MATERIAL \<Rightarrow> SceneManager \<Rightarrow> error + SceneManager" where
  "RenderJam_upper_body Xpos Ypos Zpos junk s =
     (let scaleXYZ = (6.0, 1.5, 6.0);
          XrotationDegrees = 0.0;
          YrotationDegrees = - 15.0;
          ZrotationDegrees = 0.0;
          positionXYZ = (0.0 + Xpos, 4.75 + Ypos, 0.0 + Zpos);
          s = SetTransformations scaleXYZ XrotationDegrees YrotationDegrees ZrotationDegrees
                positionXYZ s;
          s = SetShaderColor 0.28 0.18 0.10 1.0 s
      in bind_err (SetShaderMaterial junk ''brown_glass_material'' s) (\<lambda>s.
         Inr (draw DrawBoxMesh s)))"

definition RenderJam_neck ::
  "real \<Rightarrow> real \<Rightarrow> real \<Rightarrow> OBJECT_MATERIAL \<Rightarrow> SceneManager \<Rightarrow> error + SceneManager" where
  "RenderJam_neck Xpos Ypos Zpos junk s =
     (let scaleXYZ = (2.5, 1.0, 2.5);
          XrotationDegrees = 0.0;
          YrotationDegrees = 0.0;
          ZrotationDegrees = 0.0;
          positionXYZ = (0.0 + Xpos, 5.5 + Ypos, 0.0 + Zpos);
          s = SetTransformations scaleXYZ XrotationDegrees YrotationDegrees ZrotationDegrees
                positionXYZ s;
          s = SetShaderColor 0.28 0.18 0.10 1.0 s
      in bind_err (SetShaderMaterial junk ''brown_glass_material'' s) (\<lambda>s.
         Inr (draw (DrawCylinderMesh False False True) s)))"

definition RenderJam_lid ::
  "real \<Rightarrow> real \<Rightarrow> real \<Rightarrow> OBJECT_MATERIAL \<Rightarrow> SceneManager \<Rightarrow> error + SceneManager" where
  "RenderJam_lid Xpos Ypos Zpos junk s =
     (let scaleXYZ = (2.5, 2.5, 5.0);
          XrotationDegrees = 90.0;
          YrotationDegrees = 0.0;
          ZrotationDegrees = 0.0;
          positionXYZ = (0.0 + Xpos, 6.5 + Ypos, 0.0 + Zpos);
          s = SetTransformations scaleXYZ XrotationDegrees YrotationDegrees ZrotationDegrees
                positionXYZ s;
          s = SetShaderColor 0.13 0.33 0.19 1.0 s
      in bind_err (SetShaderMaterial junk ''metal_lid_material'' s) (\<lambda>s.
         let s = draw DrawExtraTorusMesh1 s;
             scaleXYZ = (2.5, 1.0, 2.5);
             XrotationDegrees = 0.0;
             YrotationDegrees = 0.0;
             ZrotationDegrees = 0.0;
             positionXYZ = (0.0 + Xpos, 6.7 + Ypos, 0.0 + Zpos);
             s = SetTransformations scaleXYZ XrotationDegrees YrotationDegrees ZrotationDegrees
                   positionXYZ s;
             s = SetShaderColor 0.13 0.33 0.19 1.0 s
         in bind_err (SetShaderMaterial junk ''metal_lid_material'' s) (\<lambda>s.
         Inr (draw (DrawCylinderMesh False True False) s))))"

definition RenderJam ::
  "real \<Rightarrow> real \<Rightarrow> real \<Rightarrow> OBJECT_MATERIAL \<Rightarrow> SceneManager \<Rightarrow> error + SceneManager" where
  "RenderJam Xpos Ypos Zpos junk s =
     bind_err (RenderJam_body Xpos Ypos Zpos junk s) (\<lambda>s.
     bind_err (RenderJam_base Xpos Ypos Zpos junk s) (\<lambda>s.
     bind_err (RenderJam_upper_body Xpos Ypos Zpos junk s) (\<lambda>s.
     bind_err (RenderJam_neck Xpos Ypos Zpos junk s) (\<lambda>s.
     RenderJam_lid Xpos Ypos Zpos junk s))))"

text \<open>
  The model matrix that a shader manager has staged: the argument of the last call
  \<open>setMat4Value\<close> for the uniform \<open>model\<close>. The translation of a matrix is its last
  column.
\<close>

fun staged_model :: "ShaderManager \<Rightarrow> mat4 option" where
  "staged_model [] = None"
| "staged_model (c # cs) =
     (case staged_model cs of
        Some m \<Rightarrow> Some m
      | None \<Rightarrow> (case c of
                   setMat4Value name m \<Rightarrow> if name = g_ModelName then Some m else None
                 | _ \<Rightarrow> None))"

definition translation_of :: "mat4 \<Rightarrow> vec4" where
  "translation_of m = (case m of (c0, c1, c2, c3) \<Rightarrow> c3)"

section \<open>ViewManager.cpp\<close>

text \<open>
  The class \<open>Camera\<close> is not part of ViewManager.cpp; a camera is modelled by the
  arguments of the calls of \<open>ProcessMouseMovement\<close> it has received, oldest first. The
  record holds the variables of the anonymous namespace that the two mouse callbacks use.
\<close>

type_synonym Camera = "(real \<times> real) list"

record ViewGlobals =
  g_pCamera :: "Camera option"
  gLastX :: real
  gLastY :: real
  gFirstMouse :: bool
  cameraSpeed :: real

definition WINDOW_WIDTH :: int where "WINDOW_WIDTH = 1000"
definition WINDOW_HEIGHT :: int where "WINDOW_HEIGHT = 800"

text \<open>The initial values of the variables, and the constructor's \<open>new Camera()\<close>.\<close>

definition initial_globals :: ViewGlobals where
  "initial_globals =
     \<lparr>g_pCamera = None, gLastX = real_of_int WINDOW_WIDTH / 2.0,
      gLastY = real_of_int WINDOW_HEIGHT / 2.0, gFirstMouse = True, cameraSpeed = 1.0\<rparr>"









definition Mouse_Scroll_Wheel_Callback :: "real \<Rightarrow> real \<Rightarrow> ViewGlobals \<Rightarrow> ViewGlobals" where
  "Mouse_Scroll_Wheel_Callback x yScrollDistance g =
     (let g = (if yScrollDistance > 0 then g\<lparr>cameraSpeed := cameraSpeed g * 1.1\<rparr>
               else if yScrollDistance < 0 then g\<lparr>cameraSpeed := cameraSpeed g * 0.9\<rparr>
               else g);
          g = (if cameraSpeed g < 0.1 then g\<lparr>cameraSpeed := 0.1\<rparr> else g);
          g = (if cameraSpeed g > 10.0 then g\<lparr>cameraSpeed := 10.0\<rparr> else g)
      in g)"

text \<open>
  The window system delivers the events one after the other: a sequence of scroll events
  (each the pair of the callback's arguments), and a sequence of pointer samples.
\<close>

fun scroll_events :: "(real \<times> real) list \<Rightarrow> ViewGlobals \<Rightarrow> ViewGlobals" where
  "scroll_events [] g = g"
| "scroll_events ((x, y) # es) g = scroll_events es (Mouse_Scroll_Wheel_Callback x y g)"




section \<open>States for the examples\<close>

text \<open>
  A scene manager with a shader manager, an array of sixteen blank texture entries, no
  registered texture and no material; and the same after \<open>DefineObjectMaterials\<close>.
\<close>

definition blank_textures :: "TEXTURE_INFO list" where
  "blank_textures = replicate MAX_TEXTURES \<lparr>ID = 0, tag = []\<rparr>"

definition example_scene :: SceneManager where
  "example_scene =
     \<lparr>m_pShaderManager = Some [], m_basicMeshes = [], m_textureIDs = blank_textures,
      m_loadedTextures = 0, m_objectMaterials = [], gl_calls = []\<rparr>"

definition example_material :: OBJECT_MATERIAL where
  "example_material =
     \<lparr>diffuseColor = (0, 0, 0), specularColor = (0, 0, 0), shininess = 0, tag = ''stale''\<rparr>"

definition scene_with_materials :: SceneManager where
  "scene_with_materials = DefineObjectMaterials example_scene"

text \<open>
  A registry whose only texture has the largest \<open>GLuint\<close> as its name; sixteen
  registrations, the thirteen of \<open>LoadSceneTextures\<close> and three more; and a decoder
  that yields an image of three channels for every file, one that yields a grey-scale
  image, and one that fails.
\<close>

definition wrapped_scene :: SceneManager where
  "wrapped_scene =
     example_scene\<lparr>m_textureIDs := blank_textures[0 := \<lparr>ID = 4294967295, tag = ''Floor''\<rparr>],
                    m_loadedTextures := 1\<rparr>"

definition sixteen_calls :: "(GLuint \<times> string \<times> string) list" where
  "sixteen_calls =
     [(1, ''textures/wood-floor.jpg'', ''Floor''),
      (2, ''textures/Mustard_Yellow_Rubber.jpg'', ''Yellow_rubber''),
      (3, ''textures/Martinellis_Label.jpg'', ''Bottle_label''),
      (4, ''textures/Aluminium_Foil.jpg'', ''Metal_wrap''),
      (5, ''textures/Cup_Blue_Pastel.jpg'', ''Blue_pastel''),
      (6, ''textures/Metal_Ribbon.jpg'', ''Metal_Ribbon''),
      (7, ''textures/Door.png'', ''Door''),
      (8, ''textures/Wood_trim_1.jpg'', ''Trim1''),
      (9, ''textures/Wood_trim_2.jpg'', ''Trim2''),
      (10, ''textures/Wall_texture.jpg'', ''Wall''),
      (11, ''textures/Jam_lable.png'', ''Jam''),
      (12, ''textures/Jam_lable_2.png'', ''Jam_2''),
      (13, ''textures/Nutrition_Label.png'', ''Nutrition_facts''),
      (14, ''textures/extra_14.jpg'', ''Extra_14''),
      (15, ''textures/extra_15.jpg'', ''Extra_15''),
      (16, ''textures/extra_16.jpg'', ''Extra_16'')]"

definition rgb_decoder :: "string \<Rightarrow> stbi_image option" where
  "rgb_decoder filename = Some \<lparr>width = 64, height = 64, colorChannels = 3\<rparr>"

definition grey_decoder :: "string \<Rightarrow> stbi_image option" where
  "grey_decoder filename = Some \<lparr>width = 64, height = 64, colorChannels = 1\<rparr>"

definition failing_decoder :: "string \<Rightarrow> stbi_image option" where
  "failing_decoder filename = None"

definition two_textures :: SceneManager where
  "two_textures =
     example_scene\<lparr>m_textureIDs := blank_textures[0 := \<lparr>ID = 7, tag = ''Floor''\<rparr>,
                                                   1 := \<lparr>ID = 9, tag = ''Door''\<rparr>],
                    m_loadedTextures := 2\<rparr>"

text \<open>
  The scene with the six materials and a null shader manager; and the variables of
  ViewManager.cpp after the constructor has run.
\<close>

definition scene_without_shader :: SceneManager where
  "scene_without_shader = scene_with_materials\<lparr>m_pShaderManager := None\<rparr>"


section \<open>Vocabulary of the proofs about RenderJam\<close>

text \<open>
  A scene manager is ready to render when it has a shader manager and its count of
  textures does not exceed the array. \<open>current_model\<close> is the model matrix staged in
  the shader manager of a scene manager. A call frames a state when it keeps it ready
  and changes neither the draws made so far nor the staged model matrix. A call returns
  with a property when it ends without undefined behaviour in a state that has the
  property.
\<close>

definition ready :: "SceneManager \<Rightarrow> bool" where
  "ready s \<longleftrightarrow>
     m_pShaderManager s \<noteq> None \<and> m_loadedTextures s \<le> int (length (m_textureIDs s))"

definition current_model :: "SceneManager \<Rightarrow> mat4 option" where
  "current_model s = (case m_pShaderManager s of None \<Rightarrow> None | Some sm \<Rightarrow> staged_model sm)"

definition frame :: "SceneManager \<Rightarrow> SceneManager \<Rightarrow> bool" where
  "frame s s' \<longleftrightarrow>
     ready s' \<and> m_basicMeshes s' = m_basicMeshes s \<and> current_model s' = current_model s"

definition returns :: "error + SceneManager \<Rightarrow> (SceneManager \<Rightarrow> bool) \<Rightarrow> bool" where
  "returns m Q \<longleftrightarrow> (\<exists>s'. m = Inr s' \<and> Q s')"

text \<open>The matrix that \<open>SetTransformations\<close> composes.\<close>

definition modelView ::
  "vec3 \<Rightarrow> real \<Rightarrow> real \<Rightarrow> real \<Rightarrow> vec3 \<Rightarrow> mat4" where
  "modelView scaleXYZ XrotationDegrees YrotationDegrees ZrotationDegrees positionXYZ =
     mat4_mul (mat4_mul (mat4_mul (mat4_mul
       (glm_translate positionXYZ)
       (glm_rotate (glm_radians ZrotationDegrees) (0, 0, 1)))
       (glm_rotate (glm_radians YrotationDegrees) (0, 1, 0)))
       (glm_rotate (glm_radians XrotationDegrees) (1, 0, 0)))
       (glm_scale scaleXYZ)"

section \<open>FindMaterial\<close>

lemma FindMaterial_while_nomatch:
  "bFound = False \<Longrightarrow>
   \<forall>i. index \<le> i \<and> i < int (length (m_objectMaterials s))
        \<longrightarrow> OBJECT_MATERIAL.tag (m_objectMaterials s ! nat i) \<noteq> tg \<Longrightarrow>
   snd (snd (FindMaterial_while s tg (index, bFound, material))) = material"
proof (induction s tg "(index, bFound, material)" arbitrary: index bFound material
       rule: FindMaterial_while.induct)
  case (1 s tg index bFound material)
  show ?case
  proof (cases "0 \<le> index \<and> index < int (length (m_objectMaterials s))")
    case True
    with "1.prems" have ne: "OBJECT_MATERIAL.tag (m_objectMaterials s ! nat index) \<noteq> tg"
      by simp
    have "snd (snd (FindMaterial_while s tg (index + 1, bFound, material))) = material"
      using True ne "1.prems" by (intro "1.hyps"(2)) auto
    with True ne "1.prems"(1) show ?thesis
      by (subst FindMaterial_while.simps) simp
  next
    case False
    then show ?thesis by (subst FindMaterial_while.simps) auto
  qed
qed

text \<open>
  Claim C1. \<open>FindMaterial\<close> returns true exactly when the material registry is not
  empty, whether or not an entry has the requested tag; and when no entry has the tag,
  the out-parameter \<open>material\<close> comes back as it was passed in.
\<close>

theorem FindMaterial_true_iff_nonempty:
  "fst (FindMaterial s tg material) = (m_objectMaterials s \<noteq> []) \<and>
   ((\<forall>m \<in> set (m_objectMaterials s). OBJECT_MATERIAL.tag m \<noteq> tg)
      \<longrightarrow> snd (FindMaterial s tg material) = material)"
proof (intro conjI impI)
  show "fst (FindMaterial s tg material) = (m_objectMaterials s \<noteq> [])"
    by (simp add: FindMaterial_def split: prod.splits)
next
  assume a: "\<forall>m \<in> set (m_objectMaterials s). OBJECT_MATERIAL.tag m \<noteq> tg"
  have "snd (snd (FindMaterial_while s tg (0, False, material))) = material"
    by (rule FindMaterial_while_nomatch) (use a in auto)
  then show "snd (FindMaterial s tg material) = material"
    by (auto simp add: FindMaterial_def split: prod.splits)
qed

text \<open>
  The six materials of \<open>DefineObjectMaterials\<close> and a tag that none of them has: the
  call reports success and returns the stale material.
\<close>

theorem FindMaterial_true_iff_nonempty_witness:
  "FindMaterial scene_with_materials ''velvet'' example_material = (True, example_material)"
  using FindMaterial_true_iff_nonempty [of scene_with_materials "''velvet''" example_material]
  by (simp add: scene_with_materials_def DefineObjectMaterials_def example_scene_def
        prod_eq_iff)

section \<open>CreateGLTexture\<close>

text \<open>
  Claim C4. When \<open>CreateGLTexture\<close> fails, because the image cannot be decoded or
  because it has neither three nor four channels, it returns false, and the array
  \<open>m_textureIDs\<close> and the count \<open>m_loadedTextures\<close> are what they were before the
  call.
\<close>

theorem CreateGLTexture_failure_keeps_registry:
  "stbi_load filename = None \<or>
   (\<exists>img. stbi_load filename = Some img \<and> colorChannels img \<noteq> 3 \<and> colorChannels img \<noteq> 4)
   \<Longrightarrow> \<exists>s'. CreateGLTexture stbi_load gen filename tg s = Inr (False, s') \<and>
            m_textureIDs s' = m_textureIDs s \<and>
            m_loadedTextures s' = m_loadedTextures s"
  by (auto simp: CreateGLTexture_def gl_def Let_def)

text \<open>A grey-scale image and a file that cannot be decoded.\<close>

theorem CreateGLTexture_failure_keeps_registry_witness:
  "(\<exists>s'. CreateGLTexture grey_decoder 5 ''textures/grey.png'' ''Grey'' example_scene
            = Inr (False, s') \<and>
         m_textureIDs s' = m_textureIDs example_scene \<and>
         m_loadedTextures s' = m_loadedTextures example_scene) \<and>
   (\<exists>s'. CreateGLTexture failing_decoder 5 ''textures/missing.jpg'' ''Missing'' example_scene
            = Inr (False, s') \<and>
         m_textureIDs s' = m_textureIDs example_scene \<and>
         m_loadedTextures s' = m_loadedTextures example_scene)"
  using CreateGLTexture_failure_keeps_registry
          [of grey_decoder "''textures/grey.png''" 5 "''Grey''" example_scene]
        CreateGLTexture_failure_keeps_registry
          [of failing_decoder "''textures/missing.jpg''" 5 "''Missing''" example_scene]
  by (simp add: grey_decoder_def failing_decoder_def)

text \<open>
  A successful registration writes the entry at index \<open>m_loadedTextures\<close>, leaves the
  other entries alone and adds one to the count.
\<close>

lemma CreateGLTexture_success:
  "0 \<le> m_loadedTextures s \<Longrightarrow> m_loadedTextures s < int (length (m_textureIDs s)) \<Longrightarrow>
   stbi_load filename = Some img \<Longrightarrow> colorChannels img = 3 \<or> colorChannels img = 4 \<Longrightarrow>
   \<exists>s'. CreateGLTexture stbi_load gen filename tg s = Inr (True, s') \<and>
        m_loadedTextures s' = m_loadedTextures s + 1 \<and>
        m_textureIDs s' = (m_textureIDs s)
          [nat (m_loadedTextures s) :=
             (m_textureIDs s ! nat (m_loadedTextures s))\<lparr>ID := gen, TEXTURE_INFO.tag := tg\<rparr>]"
  by (auto simp: CreateGLTexture_def CreateGLTexture_register_def gl_def Let_def
        texture_store_def)

text \<open>
  Claim C3. The claim asks that a registration attempted when sixteen textures are
  registered be rejected, so that the count never exceeds sixteen. The function has no
  such test: with sixteen textures registered and an image that decodes to three or
  four channels, it does not return false but writes \<open>m_textureIDs[16]\<close>, past the end
  of the array.
\<close>

theorem CreateGLTexture_seventeenth_out_of_bounds:
  "length (m_textureIDs s) = MAX_TEXTURES \<Longrightarrow> m_loadedTextures s = 16 \<Longrightarrow>
   stbi_load filename = Some img \<Longrightarrow> colorChannels img = 3 \<or> colorChannels img = 4 \<Longrightarrow>
   CreateGLTexture stbi_load gen filename tg s = Inl (ArrayIndexOutOfBounds 16)"
  by (auto simp: CreateGLTexture_def CreateGLTexture_register_def gl_def Let_def
        texture_store_def MAX_TEXTURES_def)

lemma CreateGLTexture_calls_append:
  "CreateGLTexture_calls stbi_load (cs @ ds) s =
     (case CreateGLTexture_calls stbi_load cs s of
        Inl e \<Rightarrow> Inl e
      | Inr s' \<Rightarrow> CreateGLTexture_calls stbi_load ds s')"
  by (induction stbi_load cs s rule: CreateGLTexture_calls.induct)
     (auto split: sum.splits)

text \<open>
  Sixteen registrations on the empty registry succeed; the seventeenth, of a file that
  decodes to three channels, is the write out of bounds.
\<close>

theorem CreateGLTexture_seventeenth_out_of_bounds_witness:
  "CreateGLTexture_calls rgb_decoder
     (sixteen_calls @ [(17, ''textures/extra_17.jpg'', ''Extra_17'')]) example_scene
     = Inl (ArrayIndexOutOfBounds 16)"
proof -
  obtain s where run: "CreateGLTexture_calls rgb_decoder sixteen_calls example_scene = Inr s"
    and n: "m_loadedTextures s = 16" and len: "length (m_textureIDs s) = MAX_TEXTURES"
    by (simp add: sixteen_calls_def CreateGLTexture_def CreateGLTexture_register_def gl_def
          texture_store_def rgb_decoder_def example_scene_def blank_textures_def
          MAX_TEXTURES_def Let_def)
  have img: "rgb_decoder ''textures/extra_17.jpg''
               = Some \<lparr>width = 64, height = 64, colorChannels = 3\<rparr>"
    by (simp add: rgb_decoder_def)
  have "CreateGLTexture rgb_decoder 17 ''textures/extra_17.jpg'' ''Extra_17'' s
          = Inl (ArrayIndexOutOfBounds 16)"
    using CreateGLTexture_seventeenth_out_of_bounds
            [of s rgb_decoder "''textures/extra_17.jpg''"
                "\<lparr>width = 64, height = 64, colorChannels = 3\<rparr>" 17 "''Extra_17''"]
          len n img
    by simp
  then show ?thesis
    by (simp add: CreateGLTexture_calls_append run)
qed

section \<open>FindTextureID and FindTextureSlot\<close>

lemma FindTextureSlot_while_found:
  "FindTextureSlot_while s tg (slot, index, True) = Inr (slot, index, True)"
  by (simp add: FindTextureSlot_while.simps)

lemma FindTextureID_while_found:
  "FindTextureID_while s tg (tid, index, True) = Inr (tid, index, True)"
  by (simp add: FindTextureID_while.simps)

lemma texture_at_Inr:
  "texture_at a i = Inr t \<longleftrightarrow> 0 \<le> i \<and> i < int (length a) \<and> t = a ! nat i"
  by (auto simp: texture_at_def)

text \<open>
  The two loops, started at the same index, end alike: both in the same out-of-bounds
  read, or both at the first entry from \<open>index\<close> on that has the tag, or both past the
  registered entries, none of which has the tag.
\<close>

lemma FindTexture_while_error:
  "0 \<le> index \<Longrightarrow> FindTextureSlot_while s tg (slot, index, False) = Inl e \<Longrightarrow>
   FindTextureID_while s tg (tid, index, False) = Inl e"
proof (induction "nat (m_loadedTextures s - index)" arbitrary: index)
  case 0
  then have "\<not> index < m_loadedTextures s" by simp
  with 0 show ?case
    by (simp add: FindTextureSlot_while.simps [of s tg slot index])
next
  case (Suc n)
  then have lt: "index < m_loadedTextures s" by simp
  show ?case
  proof (cases "texture_at (m_textureIDs s) index")
    case (Inl e')
    then show ?thesis
      using lt Suc.prems
      by (simp add: FindTextureSlot_while.simps [of s tg slot index]
            FindTextureID_while.simps [of s tg tid index])
  next
    case (Inr t)
    show ?thesis
    proof (cases "TEXTURE_INFO.tag t = tg")
      case True
      then show ?thesis
        using lt Inr Suc.prems
        by (simp add: FindTextureSlot_while.simps [of s tg slot index]
              FindTextureSlot_while_found)
    next
      case False
      have S: "FindTextureSlot_while s tg (slot, index, False)
                 = FindTextureSlot_while s tg (slot, index + 1, False)"
        using lt Inr False by (simp add: FindTextureSlot_while.simps [of s tg slot index])
      have I: "FindTextureID_while s tg (tid, index, False)
                 = FindTextureID_while s tg (tid, index + 1, False)"
        using lt Inr False by (simp add: FindTextureID_while.simps [of s tg tid index])
      have "n = nat (m_loadedTextures s - (index + 1))" "0 \<le> index + 1"
        using Suc.hyps(2) Suc.prems by simp_all
      then show ?thesis
        using Suc.prems(2) unfolding S I by (rule Suc.hyps(1))
    qed
  qed
qed

lemma FindTexture_while_result:
  "0 \<le> index \<Longrightarrow>
   FindTextureSlot_while s tg (slot, index, False) = Inr (slot', i', b') \<Longrightarrow>
   index \<le> i' \<and>
   (\<forall>j. index \<le> j \<and> j < i' \<longrightarrow> TEXTURE_INFO.tag (m_textureIDs s ! nat j) \<noteq> tg) \<and>
   (b' \<longrightarrow> slot' = i' \<and> i' < m_loadedTextures s \<and>
               i' < int (length (m_textureIDs s)) \<and>
               TEXTURE_INFO.tag (m_textureIDs s ! nat i') = tg \<and>
               FindTextureID_while s tg (tid, index, False)
                 = Inr (sint (ID (m_textureIDs s ! nat i')), i', True)) \<and>
   (\<not> b' \<longrightarrow> slot' = slot \<and> m_loadedTextures s \<le> i' \<and>
         FindTextureID_while s tg (tid, index, False) = Inr (tid, i', False))"
proof (induction "nat (m_loadedTextures s - index)" arbitrary: index)
  case 0
  then have ge: "\<not> index < m_loadedTextures s" by simp
  then have S: "FindTextureSlot_while s tg (slot, index, False) = Inr (slot, index, False)"
    by (simp add: FindTextureSlot_while.simps [of s tg slot index])
  from ge have I: "FindTextureID_while s tg (tid, index, False) = Inr (tid, index, False)"
    by (simp add: FindTextureID_while.simps [of s tg tid index])
  from "0.prems"(2) have eq: "slot' = slot" "i' = index" "b' = False"
    unfolding S by simp_all
  show ?case
    unfolding eq I
    using ge by (intro conjI allI impI; (arith | simp))
next
  case (Suc n)
  then have lt: "index < m_loadedTextures s" by simp
  show ?case
  proof (cases "texture_at (m_textureIDs s) index")
    case (Inl e)
    then have "FindTextureSlot_while s tg (slot, index, False) = Inl e"
      using lt by (simp add: FindTextureSlot_while.simps [of s tg slot index])
    with Suc.prems(2) show ?thesis by simp
  next
    case (Inr t)
    then have t: "index < int (length (m_textureIDs s))" "t = m_textureIDs s ! nat index"
      by (simp_all add: texture_at_Inr)
    show ?thesis
    proof (cases "TEXTURE_INFO.tag t = tg")
      case True
      have S: "FindTextureSlot_while s tg (slot, index, False) = Inr (index, index, True)"
        using lt Inr True
        by (simp add: FindTextureSlot_while.simps [of s tg slot index]
              FindTextureSlot_while_found)
      have I: "FindTextureID_while s tg (tid, index, False)
                 = Inr (sint (ID (m_textureIDs s ! nat index)), index, True)"
        using lt Inr True t(2)
        by (simp add: FindTextureID_while.simps [of s tg tid index]
              FindTextureID_while_found)
      from Suc.prems(2) have eq: "slot' = index" "i' = index" "b' = True"
        unfolding S by simp_all
      have tg: "TEXTURE_INFO.tag (m_textureIDs s ! nat index) = tg"
        using True t(2) by simp
      show ?thesis
        unfolding eq I
        using lt t(1) tg by (intro conjI allI impI; (arith | simp))
    next
      case False
      have S: "FindTextureSlot_while s tg (slot, index, False)
                 = FindTextureSlot_while s tg (slot, index + 1, False)"
        using lt Inr False by (simp add: FindTextureSlot_while.simps [of s tg slot index])
      have I: "FindTextureID_while s tg (tid, index, False)
                 = FindTextureID_while s tg (tid, index + 1, False)"
        using lt Inr False by (simp add: FindTextureID_while.simps [of s tg tid index])
      have n: "n = nat (m_loadedTextures s - (index + 1))" "0 \<le> index + 1"
        using Suc.hyps(2) Suc.prems by simp_all
      have r: "FindTextureSlot_while s tg (slot, index + 1, False) = Inr (slot', i', b')"
        using Suc.prems(2) by (simp only: S)
      note ih = Suc.hyps(1) [OF n r]
      from ih have le: "index + 1 \<le> i'" by (rule conjunct1)
      from ih have rest: "\<forall>j. index + 1 \<le> j \<and> j < i'
                            \<longrightarrow> TEXTURE_INFO.tag (m_textureIDs s ! nat j) \<noteq> tg"
        by (rule conjunct2 [THEN conjunct1])
      from ih have found: "b' \<longrightarrow> slot' = i' \<and> i' < m_loadedTextures s \<and>
               i' < int (length (m_textureIDs s)) \<and>
               TEXTURE_INFO.tag (m_textureIDs s ! nat i') = tg \<and>
               FindTextureID_while s tg (tid, index + 1, False)
                 = Inr (sint (ID (m_textureIDs s ! nat i')), i', True)"
        by (rule conjunct2 [THEN conjunct2, THEN conjunct1])
      from ih have missed: "\<not> b' \<longrightarrow> slot' = slot \<and> m_loadedTextures s \<le> i' \<and>
         FindTextureID_while s tg (tid, index + 1, False) = Inr (tid, i', False)"
        by (rule conjunct2 [THEN conjunct2, THEN conjunct2])
      have first: "\<forall>j. index \<le> j \<and> j < i' \<longrightarrow> TEXTURE_INFO.tag (m_textureIDs s ! nat j) \<noteq> tg"
      proof (intro allI impI)
        fix j assume j: "index \<le> j \<and> j < i'"
        show "TEXTURE_INFO.tag (m_textureIDs s ! nat j) \<noteq> tg"
        proof (cases "j = index")
          case True
          with False t show ?thesis by simp
        next
          case False
          with j have "index + 1 \<le> j \<and> j < i'" by arith
          with rest show ?thesis by blast
        qed
      qed
      from le have le': "index \<le> i'" by arith
      show ?thesis
        unfolding I
        by (intro conjI) (rule le', rule first, rule found, rule missed)
    qed
  qed
qed

text \<open>On a registry whose count does not exceed the array, the lookup returns.\<close>

lemma FindTextureSlot_while_returns:
  "0 \<le> index \<Longrightarrow> m_loadedTextures s \<le> int (length (m_textureIDs s)) \<Longrightarrow>
   \<exists>r. FindTextureSlot_while s tg (slot, index, False) = Inr r"
proof (induction "nat (m_loadedTextures s - index)" arbitrary: index)
  case 0
  then have "\<not> index < m_loadedTextures s" by simp
  then have "FindTextureSlot_while s tg (slot, index, False) = Inr (slot, index, False)"
    by (simp add: FindTextureSlot_while.simps [of s tg slot index])
  then show ?case by blast
next
  case (Suc n)
  then have lt: "index < m_loadedTextures s" by simp
  with Suc.prems have at: "texture_at (m_textureIDs s) index = Inr (m_textureIDs s ! nat index)"
    by (simp add: texture_at_def)
  show ?case
  proof (cases "TEXTURE_INFO.tag (m_textureIDs s ! nat index) = tg")
    case True
    then have "FindTextureSlot_while s tg (slot, index, False) = Inr (index, index, True)"
      using lt at
      by (simp add: FindTextureSlot_while.simps [of s tg slot index]
            FindTextureSlot_while_found)
    then show ?thesis by blast
  next
    case False
    have "n = nat (m_loadedTextures s - (index + 1))" "0 \<le> index + 1"
      using Suc.hyps(2) Suc.prems by simp_all
    then have "\<exists>r. FindTextureSlot_while s tg (slot, index + 1, False) = Inr r"
      using Suc.prems(2) by (rule Suc.hyps(1))
    then show ?thesis
      using lt at False by (simp add: FindTextureSlot_while.simps [of s tg slot index])
  qed
qed

lemma FindTextureSlot_returns:
  "m_loadedTextures s \<le> int (length (m_textureIDs s)) \<Longrightarrow>
   \<exists>slot. FindTextureSlot s tg = Inr slot"
  using FindTextureSlot_while_returns [of 0 s tg "- 1"]
  by (auto simp: FindTextureSlot_def split: prod.splits)

text \<open>
  Claim C10, as amended. The claim says that \<open>FindTextureID\<close> returns -1 exactly when
  \<open>FindTextureSlot\<close> does. One direction fails: \<open>FindTextureID\<close> converts the
  \<open>GLuint\<close> of the entry to \<open>int\<close>, and the name \<open>0xFFFFFFFF\<close> becomes -1. What
  holds for every registry and every tag: the two functions run into the same
  out-of-bounds read or both return; if \<open>FindTextureSlot\<close> returns -1 then no
  registered entry has the tag and \<open>FindTextureID\<close> returns -1; otherwise the slot is
  the index of the first registered entry that has the tag, and \<open>FindTextureID\<close>
  returns the \<open>ID\<close> of that entry converted to \<open>int\<close>, which is -1 exactly when the
  \<open>ID\<close> is \<open>0xFFFFFFFF\<close>.
\<close>

theorem FindTextureID_agrees_with_FindTextureSlot:
  "(case FindTextureSlot s tg of
      Inl e \<Rightarrow> FindTextureID s tg = Inl e
    | Inr slot \<Rightarrow>
        if slot = - 1 then
          FindTextureID s tg = Inr (- 1) \<and>
          (\<forall>j. 0 \<le> j \<and> j < m_loadedTextures s
                \<longrightarrow> TEXTURE_INFO.tag (m_textureIDs s ! nat j) \<noteq> tg)
        else
          0 \<le> slot \<and> slot < m_loadedTextures s \<and> slot < int (length (m_textureIDs s)) \<and>
          TEXTURE_INFO.tag (m_textureIDs s ! nat slot) = tg \<and>
          (\<forall>j. 0 \<le> j \<and> j < slot \<longrightarrow> TEXTURE_INFO.tag (m_textureIDs s ! nat j) \<noteq> tg) \<and>
          FindTextureID s tg = Inr (sint (ID (m_textureIDs s ! nat slot))) \<and>
          (FindTextureID s tg = Inr (- 1) \<longleftrightarrow> ID (m_textureIDs s ! nat slot) = 4294967295))"
proof (cases "FindTextureSlot_while s tg (- 1, 0, False)")
  case (Inl e)
  then show ?thesis
    using FindTexture_while_error [of 0 s tg "- 1" e "- 1"]
    by (simp add: FindTextureSlot_def FindTextureID_def)
next
  case (Inr r)
  obtain slot' i' b' where r: "r = (slot', i', b')" by (cases r)
  have run: "FindTextureSlot_while s tg (- 1, 0, False) = Inr (slot', i', b')"
    using Inr r by simp
  have slot: "FindTextureSlot s tg = Inr slot'"
    using run by (simp add: FindTextureSlot_def)
  note res = FindTexture_while_result [OF order_refl run, of "- 1"]
  from res have le: "0 \<le> i'" by (rule conjunct1)
  from res have first: "\<forall>j. 0 \<le> j \<and> j < i'
                            \<longrightarrow> TEXTURE_INFO.tag (m_textureIDs s ! nat j) \<noteq> tg"
    by (rule conjunct2 [THEN conjunct1])
  have m1: "sint w = - 1 \<longleftrightarrow> w = 4294967295" for w :: "32 word"
  proof
    assume "sint w = - 1"
    then have "sint w = sint (- 1 :: 32 word)" by simp
    then have "w = - 1" by (rule signed_word_eqI)
    then show "w = 4294967295" by simp
  next
    assume "w = 4294967295"
    then show "sint w = - 1" by simp
  qed
  show ?thesis
  proof (cases b')
    case True
    with res have f: "slot' = i'" "i' < m_loadedTextures s"
        "i' < int (length (m_textureIDs s))"
        "TEXTURE_INFO.tag (m_textureIDs s ! nat i') = tg"
        "FindTextureID_while s tg (- 1, 0, False)
           = Inr (sint (ID (m_textureIDs s ! nat i')), i', True)"
      by blast+
    have ne: "i' \<noteq> - 1" using le by arith
    have id: "FindTextureID s tg = Inr (sint (ID (m_textureIDs s ! nat i')))"
      using f(5) by (simp add: FindTextureID_def)
    show ?thesis
      unfolding slot f(1) id
      using ne le f(2,3,4) first by (simp add: m1)
  next
    case False
    with res have f: "slot' = - 1" "m_loadedTextures s \<le> i'"
        "FindTextureID_while s tg (- 1, 0, False) = Inr (- 1, i', False)"
      by blast+
    have id: "FindTextureID s tg = Inr (- 1)"
      using f(3) by (simp add: FindTextureID_def)
    have none: "\<forall>j. 0 \<le> j \<and> j < m_loadedTextures s
                  \<longrightarrow> TEXTURE_INFO.tag (m_textureIDs s ! nat j) \<noteq> tg"
    proof (intro allI impI)
      fix j assume "0 \<le> j \<and> j < m_loadedTextures s"
      with f(2) have "0 \<le> j \<and> j < i'" by arith
      with first show "TEXTURE_INFO.tag (m_textureIDs s ! nat j) \<noteq> tg" by blast
    qed
    show ?thesis
      unfolding slot f(1) id using none by simp
  qed
qed

text \<open>
  Two textures, the second tagged \<open>Door\<close> with the name 9: the slot is 1 and the
  identifier is 9. An unregistered tag gives -1 twice.
\<close>

theorem FindTextureID_agrees_with_FindTextureSlot_witness:
  "FindTextureSlot two_textures ''Door'' = Inr 1 \<and>
   FindTextureID two_textures ''Door'' = Inr 9 \<and>
   FindTextureSlot two_textures ''Wall'' = Inr (- 1) \<and>
   FindTextureID two_textures ''Wall'' = Inr (- 1)"
proof -
  have 1: "FindTextureSlot two_textures ''Door'' = Inr 1"
    by (simp add: FindTextureSlot_def FindTextureSlot_while.simps texture_at_def
          two_textures_def example_scene_def blank_textures_def MAX_TEXTURES_def)
  have 2: "FindTextureSlot two_textures ''Wall'' = Inr (- 1)"
    by (simp add: FindTextureSlot_def FindTextureSlot_while.simps texture_at_def
          two_textures_def example_scene_def blank_textures_def MAX_TEXTURES_def)
  have 3: "FindTextureID two_textures ''Door'' = Inr 9"
    using FindTextureID_agrees_with_FindTextureSlot [of two_textures "''Door''"]
    by (simp add: 1) (simp add: two_textures_def example_scene_def blank_textures_def
          MAX_TEXTURES_def)
  have 4: "FindTextureID two_textures ''Wall'' = Inr (- 1)"
    using FindTextureID_agrees_with_FindTextureSlot [of two_textures "''Wall''"]
    by (simp add: 2)
  from 1 2 3 4 show ?thesis by simp
qed

text \<open>
  The claim as stated fails on a registry whose texture \<open>Floor\<close> has the name
  \<open>0xFFFFFFFF\<close>: \<open>FindTextureID\<close> returns -1 and \<open>FindTextureSlot\<close> returns 0.
\<close>

theorem FindTextureID_minus_one_counterexample:
  "FindTextureID wrapped_scene ''Floor'' = Inr (- 1) \<and>
   FindTextureSlot wrapped_scene ''Floor'' = Inr 0 \<and>
   \<not> (FindTextureID wrapped_scene ''Floor'' = Inr (- 1)
        \<longleftrightarrow> FindTextureSlot wrapped_scene ''Floor'' = Inr (- 1))"
proof -
  have 1: "FindTextureSlot wrapped_scene ''Floor'' = Inr 0"
    by (simp add: FindTextureSlot_def FindTextureSlot_while.simps texture_at_def
          wrapped_scene_def example_scene_def blank_textures_def MAX_TEXTURES_def)
  have 2: "FindTextureID wrapped_scene ''Floor'' = Inr (- 1)"
    by (simp add: FindTextureID_def FindTextureID_while.simps texture_at_def
          wrapped_scene_def example_scene_def blank_textures_def MAX_TEXTURES_def)
  from 1 2 show ?thesis by simp
qed

section \<open>The setters of the shader state\<close>

text \<open>
  Claim C7. For a tag that no registered texture has, \<open>FindTextureSlot\<close> returns -1,
  and \<open>SetShaderTexture\<close>, given a shader manager, sets \<open>bUseTexture\<close> to true and
  passes the index -1 to the sampler \<open>objectTexture\<close>, with no error. The count of
  registered textures is taken not to exceed the array.
\<close>

theorem SetShaderTexture_unregistered_tag:
  assumes wf: "m_loadedTextures s \<le> int (length (m_textureIDs s))"
    and unreg: "\<forall>j. 0 \<le> j \<and> j < m_loadedTextures s
                  \<longrightarrow> TEXTURE_INFO.tag (m_textureIDs s ! nat j) \<noteq> tg"
    and sm: "m_pShaderManager s = Some sm"
  shows "FindTextureSlot s tg = Inr (- 1) \<and>
         SetShaderTexture tg s =
           Inr (s\<lparr>m_pShaderManager :=
                  Some (sm @ [setIntValue ''bUseTexture'' 1,
                              setSampler2DValue ''objectTexture'' (- 1)])\<rparr>)"
proof -
  obtain r where "FindTextureSlot_while s tg (- 1, 0, False) = Inr r"
    using FindTextureSlot_while_returns [OF order_refl wf] by blast
  then obtain slot' i' b' where
    run: "FindTextureSlot_while s tg (- 1, 0, False) = Inr (slot', i', b')"
    by (cases r) simp
  note res = FindTexture_while_result [OF order_refl run, of "- 1"]
  have "\<not> b'"
  proof
    assume b'
    with res have "0 \<le> i'" "i' < m_loadedTextures s"
      "TEXTURE_INFO.tag (m_textureIDs s ! nat i') = tg"
      by blast+
    with unreg show False by blast
  qed
  with res have "slot' = - 1" by blast
  with run have slot: "FindTextureSlot s tg = Inr (- 1)"
    by (simp add: FindTextureSlot_def)
  then show ?thesis
    using sm
    by (simp add: SetShaderTexture_def g_UseTextureName_def g_TextureValueName_def)
qed

text \<open>The tag \<open>Wall\<close> on a registry that holds \<open>Floor\<close> and \<open>Door\<close>.\<close>

theorem SetShaderTexture_unregistered_tag_witness:
  "FindTextureSlot two_textures ''Wall'' = Inr (- 1) \<and>
   SetShaderTexture ''Wall'' two_textures =
     Inr (two_textures\<lparr>m_pShaderManager :=
            Some [setIntValue ''bUseTexture'' 1, setSampler2DValue ''objectTexture'' (- 1)]\<rparr>)"
proof -
  have wf: "m_loadedTextures two_textures \<le> int (length (m_textureIDs two_textures))"
    by (simp add: two_textures_def example_scene_def blank_textures_def MAX_TEXTURES_def)
  have unreg: "\<forall>j. 0 \<le> j \<and> j < m_loadedTextures two_textures
                  \<longrightarrow> TEXTURE_INFO.tag (m_textureIDs two_textures ! nat j) \<noteq> ''Wall''"
  proof (intro allI impI)
    fix j :: int assume "0 \<le> j \<and> j < m_loadedTextures two_textures"
    then have "j = 0 \<or> j = 1" by (auto simp: two_textures_def)
    then show "TEXTURE_INFO.tag (m_textureIDs two_textures ! nat j) \<noteq> ''Wall''"
      by (auto simp: two_textures_def example_scene_def blank_textures_def MAX_TEXTURES_def)
  qed
  have sm: "m_pShaderManager two_textures = Some []"
    by (simp add: two_textures_def example_scene_def)
  show ?thesis
    using SetShaderTexture_unregistered_tag [OF wf unreg sm] by simp
qed

text \<open>
  Claim C2. The claim says that each of the five setters is a no-op when the pointer
  \<open>m_pShaderManager\<close> is null. Four of them test the pointer and are. The fifth,
  \<open>SetShaderMaterial\<close>, does not test it: when the material registry is not empty,
  it calls \<open>setVec3Value\<close> through the null pointer.
\<close>

theorem setters_with_null_shader_manager:
  assumes "m_pShaderManager s = None"
  shows "SetTransformations scaleXYZ xd yd zd positionXYZ s = s \<and>
         SetShaderColor r g b a s = s \<and>
         SetShaderTexture textureTag s = Inr s \<and>
         SetTextureUVScale u v s = s \<and>
         SetShaderMaterial junk materialTag s =
           (if m_objectMaterials s = [] then Inr s else Inl NullPointerDereference)"
  using assms
  by (simp add: SetTransformations_def SetShaderColor_def SetShaderTexture_def
        SetTextureUVScale_def SetShaderMaterial_def FindMaterial_def Let_def
        split: prod.splits)

theorem setters_with_null_shader_manager_witness:
  "SetShaderMaterial example_material ''glass'' scene_without_shader
     = Inl NullPointerDereference \<and>
   SetShaderColor 1 0 0 1 scene_without_shader = scene_without_shader"
  using setters_with_null_shader_manager
          [of scene_without_shader _ _ _ _ _ 1 0 0 1 _ _ _ example_material "''glass''"]
  by (simp add: scene_without_shader_def scene_with_materials_def DefineObjectMaterials_def
        example_scene_def)

section \<open>SetTransformations\<close>

text \<open>
  The product of two matrices acts as the second followed by the first; and the actions
  of the matrices that GLM builds: a scaling, a translation, and the rotations about the
  three axes.
\<close>

lemma mat4_apply_mul: "mat4_apply (mat4_mul m1 m2) v = mat4_apply m1 (mat4_apply m2 v)"
proof -
  obtain a0 a1 a2 a3 b0 b1 b2 b3 c0 c1 c2 c3 d0 d1 d2 d3 :: real
    where m1: "m1 = ((a0, a1, a2, a3), (b0, b1, b2, b3), (c0, c1, c2, c3), (d0, d1, d2, d3))"
    by (metis prod.collapse)
  obtain e0 e1 e2 e3 f0 f1 f2 f3 g0 g1 g2 g3 h0 h1 h2 h3 :: real
    where m2: "m2 = ((e0, e1, e2, e3), (f0, f1, f2, f3), (g0, g1, g2, g3), (h0, h1, h2, h3))"
    by (metis prod.collapse)
  obtain x y z w :: real where v: "v = (x, y, z, w)"
    by (metis prod.collapse)
  show ?thesis
    unfolding m1 m2 v by (simp add: mat4_apply_def mat4_mul_def algebra_simps)
qed

lemma glm_scale_apply:
  "mat4_apply (glm_scale (sx, sy, sz)) (x, y, z, w) = (sx * x, sy * y, sz * z, w)"
  by (simp add: glm_scale_def mat4_apply_def)

lemma glm_translate_apply:
  "mat4_apply (glm_translate (tx, ty, tz)) (x, y, z, w) = (x + tx * w, y + ty * w, z + tz * w, w)"
  by (simp add: glm_translate_def mat4_apply_def)

lemma glm_rotate_X_apply:
  "mat4_apply (glm_rotate a (1, 0, 0)) (x, y, z, w)
     = (x, cos a * y - sin a * z, sin a * y + cos a * z, w)"
  by (simp add: glm_rotate_def glm_normalize_def mat4_apply_def Let_def)

lemma glm_rotate_Y_apply:
  "mat4_apply (glm_rotate a (0, 1, 0)) (x, y, z, w)
     = (cos a * x + sin a * z, y, cos a * z - sin a * x, w)"
  by (simp add: glm_rotate_def glm_normalize_def mat4_apply_def Let_def)

lemma glm_rotate_Z_apply:
  "mat4_apply (glm_rotate a (0, 0, 1)) (x, y, z, w)
     = (cos a * x - sin a * y, sin a * x + cos a * y, z, w)"
  by (simp add: glm_rotate_def glm_normalize_def mat4_apply_def Let_def)

text \<open>
  Claim C5. Given a shader manager, \<open>SetTransformations\<close> stages under \<open>model\<close> the
  product Translation, RotationZ, RotationY, RotationX, Scale, in this order, with each
  angle multiplied by \<open>pi / 180\<close>. Applied to a vector, the staged matrix scales first,
  then rotates about X, then about Y, then about Z, and translates last.
\<close>

theorem SetTransformations_model_matrix:
  assumes "m_pShaderManager s = Some sm"
  shows "let M = mat4_mul (mat4_mul (mat4_mul (mat4_mul
                   (glm_translate positionXYZ)
                   (glm_rotate (zd * (pi / 180)) (0, 0, 1)))
                   (glm_rotate (yd * (pi / 180)) (0, 1, 0)))
                   (glm_rotate (xd * (pi / 180)) (1, 0, 0)))
                   (glm_scale scaleXYZ)
         in SetTransformations scaleXYZ xd yd zd positionXYZ s
              = s\<lparr>m_pShaderManager := Some (sm @ [setMat4Value ''model'' M])\<rparr> \<and>
            (\<forall>v. mat4_apply M v =
               mat4_apply (glm_translate positionXYZ)
                (mat4_apply (glm_rotate (zd * (pi / 180)) (0, 0, 1))
                  (mat4_apply (glm_rotate (yd * (pi / 180)) (0, 1, 0))
                    (mat4_apply (glm_rotate (xd * (pi / 180)) (1, 0, 0))
                      (mat4_apply (glm_scale scaleXYZ) v)))))"
  using assms
  by (simp add: SetTransformations_def Let_def g_ModelName_def glm_radians_def mat4_apply_mul)

text \<open>
  A quarter turn about X and about Z, the scale (2, 3, 4) and the position
  (9, 0.501, -4): the staged matrix takes the point (1, 1, 1) to (13, 2.501, -1).
\<close>

theorem SetTransformations_model_matrix_witness:
  "let M = mat4_mul (mat4_mul (mat4_mul (mat4_mul
                   (glm_translate (9, 0.501, - 4))
                   (glm_rotate (90 * (pi / 180)) (0, 0, 1)))
                   (glm_rotate (0 * (pi / 180)) (0, 1, 0)))
                   (glm_rotate (90 * (pi / 180)) (1, 0, 0)))
                   (glm_scale (2, 3, 4))
   in SetTransformations (2, 3, 4) 90 0 90 (9, 0.501, - 4) example_scene
          = example_scene\<lparr>m_pShaderManager := Some [setMat4Value ''model'' M]\<rparr> \<and>
      mat4_apply M (1, 1, 1, 1) = (13, 2.501, - 1, 1)"
proof -
  have sm: "m_pShaderManager example_scene = Some []"
    by (simp add: example_scene_def)
  have quarter: "90 * (pi / 180) = pi / 2"
    by simp
  have app: "mat4_apply (glm_translate (9, 0.501, - 4))
                 (mat4_apply (glm_rotate (90 * (pi / 180)) (0, 0, 1))
                   (mat4_apply (glm_rotate (0 * (pi / 180)) (0, 1, 0))
                     (mat4_apply (glm_rotate (90 * (pi / 180)) (1, 0, 0))
                       (mat4_apply (glm_scale (2, 3, 4)) (1, 1, 1, 1)))))
             = (13, 2.501, - 1, 1)"
    unfolding quarter
    by (simp add: glm_scale_apply glm_translate_apply glm_rotate_X_apply
          glm_rotate_Y_apply glm_rotate_Z_apply)
  show ?thesis
    using SetTransformations_model_matrix [OF sm, of "(9, 0.501, - 4)" 90 0 90 "(2, 3, 4)"]
    unfolding Let_def by (simp only: app append_Nil simp_thms)
qed

section \<open>The mouse callbacks\<close>

lemma Mouse_Scroll_Wheel_Callback_range:
  "0.1 \<le> cameraSpeed (Mouse_Scroll_Wheel_Callback x y g) \<and>
   cameraSpeed (Mouse_Scroll_Wheel_Callback x y g) \<le> 10"
  by (simp add: Mouse_Scroll_Wheel_Callback_def Let_def)

lemma scroll_events_range:
  "0.1 \<le> cameraSpeed g \<and> cameraSpeed g \<le> 10 \<Longrightarrow>
   0.1 \<le> cameraSpeed (scroll_events es g) \<and> cameraSpeed (scroll_events es g) \<le> 10"
proof (induction es arbitrary: g)
  case Nil
  then show ?case by simp
next
  case (Cons e es)
  obtain x y where e: "e = (x, y)" by (cases e)
  show ?case
    unfolding e scroll_events.simps
    by (rule Cons.IH) (rule Mouse_Scroll_Wheel_Callback_range)
qed

text \<open>
  Claim C6. From the initial value 1.0 the camera speed stays within 0.1 and 10 after
  any sequence of scroll events. A tick upwards multiplies the speed by 1.1 and a tick
  downwards by 0.9, and the product is clamped to the interval. In particular 200 ticks
  upwards do not exceed 10 and 200 ticks downwards do not fall below 0.1.
\<close>

theorem cameraSpeed_stays_clamped:
  "0.1 \<le> cameraSpeed (scroll_events es initial_globals) \<and>
   cameraSpeed (scroll_events es initial_globals) \<le> 10 \<and>
   (0 < y \<longrightarrow> cameraSpeed (Mouse_Scroll_Wheel_Callback x y g)
                  = min 10 (max 0.1 (cameraSpeed g * 1.1))) \<and>
   (y < 0 \<longrightarrow> cameraSpeed (Mouse_Scroll_Wheel_Callback x y g)
                  = min 10 (max 0.1 (cameraSpeed g * 0.9))) \<and>
   cameraSpeed (scroll_events (replicate 200 (x, 1)) initial_globals) \<le> 10 \<and>
   0.1 \<le> cameraSpeed (scroll_events (replicate 200 (x, - 1)) initial_globals)"
proof -
  have init: "0.1 \<le> cameraSpeed initial_globals \<and> cameraSpeed initial_globals \<le> 10"
    by (simp add: initial_globals_def)
  note range = scroll_events_range [OF init]
  have up: "0 < y \<longrightarrow> cameraSpeed (Mouse_Scroll_Wheel_Callback x y g)
                  = min 10 (max 0.1 (cameraSpeed g * 1.1))"
    by (simp add: Mouse_Scroll_Wheel_Callback_def Let_def min_def max_def)
  have down: "y < 0 \<longrightarrow> cameraSpeed (Mouse_Scroll_Wheel_Callback x y g)
                  = min 10 (max 0.1 (cameraSpeed g * 0.9))"
    by (simp add: Mouse_Scroll_Wheel_Callback_def Let_def min_def max_def)
  from range [of es] range [of "replicate 200 (x, 1)"] range [of "replicate 200 (x, - 1)"]
    up down
  show ?thesis by blast
qed

text \<open>
  Three ticks upwards from the initial speed give 1.331; one tick upwards from 9.5 is
  clamped to 10, and one tick downwards from 0.1 is clamped to 0.1.
\<close>

theorem cameraSpeed_stays_clamped_witness:
  "cameraSpeed (scroll_events [(0, 1), (0, 1), (0, 1)] initial_globals) = 1.331 \<and>
   cameraSpeed (Mouse_Scroll_Wheel_Callback 0 1 (initial_globals\<lparr>cameraSpeed := 9.5\<rparr>)) = 10 \<and>
   cameraSpeed (Mouse_Scroll_Wheel_Callback 0 (- 1) (initial_globals\<lparr>cameraSpeed := 0.1\<rparr>))
     = 0.1"
proof -
  have 1: "cameraSpeed (scroll_events [(0, 1), (0, 1), (0, 1)] initial_globals) = 1.331"
    by (simp add: Mouse_Scroll_Wheel_Callback_def initial_globals_def Let_def)
  have 2: "cameraSpeed (Mouse_Scroll_Wheel_Callback 0 1 (initial_globals\<lparr>cameraSpeed := 9.5\<rparr>))
             = 10"
    using cameraSpeed_stays_clamped [of "[]" 1 0 "initial_globals\<lparr>cameraSpeed := 9.5\<rparr>"]
    by simp
  have 3: "cameraSpeed
             (Mouse_Scroll_Wheel_Callback 0 (- 1) (initial_globals\<lparr>cameraSpeed := 0.1\<rparr>))
           = 0.1"
    using cameraSpeed_stays_clamped [of "[]" "- 1" 0 "initial_globals\<lparr>cameraSpeed := 0.1\<rparr>"]
    by simp
  from 1 2 3 show ?thesis by simp
qed

subsection \<open>Rounding\<close>









subsection \<open>The pointer callback\<close>












section \<open>RenderJam\<close>

lemma staged_model_append:
  "staged_model (xs @ ys) =
     (case staged_model ys of Some m \<Rightarrow> Some m | None \<Rightarrow> staged_model xs)"
  by (induction xs) (auto split: option.splits)

lemma translation_of_mul:
  "translation_of (mat4_mul m1 m2) = mat4_apply m1 (translation_of m2)"
  by (cases m2) (simp add: translation_of_def mat4_mul_def)

lemma translation_of_modelView:
  "translation_of (modelView (sx, sy, sz) xd yd zd (px, py, pz)) = (px, py, pz, 1)"
  by (simp add: modelView_def translation_of_mul mat4_apply_mul glm_rotate_X_apply
        glm_rotate_Y_apply glm_rotate_Z_apply glm_translate_apply)
     (simp add: translation_of_def glm_scale_def glm_rotate_X_apply
        glm_rotate_Y_apply glm_rotate_Z_apply glm_translate_apply)

lemma mat4_apply_origin:
  "mat4_apply m (0, 0, 0, 1) = translation_of m"
  by (cases m) (auto simp: mat4_apply_def translation_of_def)

text \<open>What the setters and a draw do to a scene manager that is ready.\<close>

lemma SetTransformations_ready:
  "ready s \<Longrightarrow>
   ready (SetTransformations sc xd yd zd p s) \<and>
   m_basicMeshes (SetTransformations sc xd yd zd p s) = m_basicMeshes s \<and>
   current_model (SetTransformations sc xd yd zd p s) = Some (modelView sc xd yd zd p)"
  by (auto simp: ready_def current_model_def SetTransformations_def Let_def modelView_def
        staged_model_append)

lemma SetShaderColor_frame: "ready s \<Longrightarrow> frame s (SetShaderColor r g b a s)"
  by (auto simp: frame_def ready_def current_model_def SetShaderColor_def Let_def
        staged_model_append)

lemma SetTextureUVScale_frame: "ready s \<Longrightarrow> frame s (SetTextureUVScale u v s)"
  by (auto simp: frame_def ready_def current_model_def SetTextureUVScale_def
        staged_model_append)

lemma SetShaderTexture_returns: "ready s \<Longrightarrow> returns (SetShaderTexture tg s) (frame s)"
proof -
  assume r: "ready s"
  then obtain sm where sm: "m_pShaderManager s = Some sm"
    by (auto simp: ready_def)
  from r obtain slot where "FindTextureSlot s tg = Inr slot"
    using FindTextureSlot_returns [of s tg] by (auto simp: ready_def)
  with r sm show ?thesis
    by (simp add: returns_def SetShaderTexture_def frame_def ready_def current_model_def
          staged_model_append)
qed

lemma SetShaderMaterial_returns:
  "ready s \<Longrightarrow> returns (SetShaderMaterial junk tg s) (frame s)"
  by (auto simp: returns_def SetShaderMaterial_def frame_def ready_def current_model_def
        FindMaterial_def staged_model_append split: prod.splits)

lemma draw_ready:
  "ready s \<Longrightarrow>
   ready (draw d s) \<and> m_basicMeshes (draw d s) = m_basicMeshes s @ [(d, m_pShaderManager s)] \<and>
   current_model (draw d s) = current_model s"
  by (simp add: ready_def current_model_def draw_def)

lemma returns_bind:
  "returns m (\<lambda>s1. returns (f s1) Q) \<Longrightarrow> returns (bind_err m f) Q"
  by (auto simp: returns_def bind_err_def)

lemma returns_weaken:
  "returns m P \<Longrightarrow> (\<And>s. P s \<Longrightarrow> Q s) \<Longrightarrow> returns m Q"
  by (auto simp: returns_def)

lemma returns_Inr: "Q s \<Longrightarrow> returns (Inr s) Q"
  by (simp add: returns_def)

text \<open>
  A part that sets the transformation, a colour and a material and then draws one mesh:
  it returns with one more draw, made with the composed matrix as the model matrix.
\<close>

lemma coloured_part:
  assumes "ready s"
  shows "returns
           (bind_err (SetShaderMaterial junk tg
                        (SetShaderColor r g b a (SetTransformations sc xd yd zd p s)))
              (\<lambda>s. Inr (draw d s)))
           (\<lambda>s'. ready s' \<and>
                 (\<exists>sm. m_basicMeshes s' = m_basicMeshes s @ [(d, Some sm)] \<and>
                       staged_model sm = Some (modelView sc xd yd zd p)))"
proof -
  let ?s1 = "SetTransformations sc xd yd zd p s"
  let ?s2 = "SetShaderColor r g b a ?s1"
  note t = SetTransformations_ready [OF assms, of sc xd yd zd p]
  from t have f2: "frame ?s1 ?s2" by (simp add: SetShaderColor_frame)
  then have r2: "ready ?s2" by (simp add: frame_def)
  from SetShaderMaterial_returns [OF r2, of junk tg]
  obtain s3 where s3: "SetShaderMaterial junk tg ?s2 = Inr s3" and f3: "frame ?s2 s3"
    by (auto simp: returns_def)
  from f3 have r3: "ready s3" by (simp add: frame_def)
  then obtain sm where sm: "m_pShaderManager s3 = Some sm"
    by (auto simp: ready_def)
  have meshes: "m_basicMeshes s3 = m_basicMeshes s"
    using f3 f2 t by (simp add: frame_def)
  have "current_model s3 = Some (modelView sc xd yd zd p)"
    using f3 f2 t by (simp add: frame_def)
  with sm have model: "staged_model sm = Some (modelView sc xd yd zd p)"
    by (simp add: current_model_def)
  note d = draw_ready [OF r3, of d]
  show ?thesis
    unfolding returns_def bind_err_def s3
    using d meshes model sm by simp
qed

lemma RenderJam_base_returns:
  "ready s \<Longrightarrow>
   returns (RenderJam_base Xpos Ypos Zpos junk s)
     (\<lambda>s'. ready s' \<and>
           (\<exists>sm. m_basicMeshes s' = m_basicMeshes s @ [(DrawBoxMesh, Some sm)] \<and>
                 staged_model sm =
                   Some (modelView (6.0, 1.0, 6.0) 0.0 (- 15.0) 0.0
                           (0.0 + Xpos, 0.50 + Ypos, 0.0 + Zpos))))"
  unfolding RenderJam_base_def Let_def by (rule coloured_part)

lemma RenderJam_upper_body_returns:
  "ready s \<Longrightarrow>
   returns (RenderJam_upper_body Xpos Ypos Zpos junk s)
     (\<lambda>s'. ready s' \<and> (\<exists>ds. length ds = 1 \<and> m_basicMeshes s' = m_basicMeshes s @ ds))"
  unfolding RenderJam_upper_body_def Let_def
  by (rule returns_weaken, rule coloured_part) auto

lemma RenderJam_neck_returns:
  "ready s \<Longrightarrow>
   returns (RenderJam_neck Xpos Ypos Zpos junk s)
     (\<lambda>s'. ready s' \<and> (\<exists>ds. length ds = 1 \<and> m_basicMeshes s' = m_basicMeshes s @ ds))"
  unfolding RenderJam_neck_def Let_def
  by (rule returns_weaken, rule coloured_part) auto

lemma RenderJam_lid_returns:
  assumes "ready s"
  shows "returns (RenderJam_lid Xpos Ypos Zpos junk s)
     (\<lambda>s'. ready s' \<and> (\<exists>ds. length ds = 2 \<and> m_basicMeshes s' = m_basicMeshes s @ ds))"
proof -
  let ?s1 = "SetTransformations (2.5, 2.5, 5.0) 90.0 0.0 0.0
               (0.0 + Xpos, 6.5 + Ypos, 0.0 + Zpos) s"
  let ?s2 = "SetShaderColor 0.13 0.33 0.19 1.0 ?s1"
  note t = SetTransformations_ready [OF assms, of "(2.5, 2.5, 5.0)" "90.0" "0.0" "0.0"
             "(0.0 + Xpos, 6.5 + Ypos, 0.0 + Zpos)"]
  from t have f2: "frame ?s1 ?s2" by (simp add: SetShaderColor_frame)
  then have r2: "ready ?s2" by (simp add: frame_def)
  from SetShaderMaterial_returns [OF r2, of junk "''metal_lid_material''"]
  obtain s3 where s3: "SetShaderMaterial junk ''metal_lid_material'' ?s2 = Inr s3"
    and f3: "frame ?s2 s3"
    by (auto simp: returns_def)
  from f3 have r3: "ready s3" by (simp add: frame_def)
  have meshes: "m_basicMeshes s3 = m_basicMeshes s"
    using f3 f2 t by (simp add: frame_def)
  note d = draw_ready [OF r3, of DrawExtraTorusMesh1]
  from d have r4: "ready (draw DrawExtraTorusMesh1 s3)" by simp
  from coloured_part [OF r4, of junk "''metal_lid_material''" "0.13" "0.33" "0.19" "1.0"
         "(2.5, 1.0, 2.5)" "0.0" "0.0" "0.0" "(0.0 + Xpos, 6.7 + Ypos, 0.0 + Zpos)"
         "DrawCylinderMesh False True False"]
  have inner: "returns
          (bind_err (SetShaderMaterial junk ''metal_lid_material''
                       (SetShaderColor 0.13 0.33 0.19 1.0
                          (SetTransformations (2.5, 1.0, 2.5) 0.0 0.0 0.0
                             (0.0 + Xpos, 6.7 + Ypos, 0.0 + Zpos)
                             (draw DrawExtraTorusMesh1 s3))))
             (\<lambda>s. Inr (draw (DrawCylinderMesh False True False) s)))
          (\<lambda>s'. ready s' \<and> (\<exists>ds. length ds = 2 \<and> m_basicMeshes s' = m_basicMeshes s @ ds))"
    by (rule returns_weaken) (use d meshes in auto)
  show ?thesis
    unfolding RenderJam_lid_def Let_def
    apply (rule returns_bind)
    apply (simp only: s3)
    apply (rule returns_Inr)
    apply (rule inner)
    done
qed

lemma RenderJam_body_returns:
  assumes "ready s"
  shows "returns (RenderJam_body Xpos Ypos Zpos junk s)
     (\<lambda>s'. ready s' \<and> (\<exists>ds. length ds = 4 \<and> m_basicMeshes s' = m_basicMeshes s @ ds))"
proof -
  let ?a = "SetTextureUVScale 1 1
              (SetTransformations (6.0, 3.0, 6.0) 0.0 (- 15.0) 0.0
                 (0.0 + Xpos, 2.5 + Ypos, 0.0 + Zpos) s)"
  note t = SetTransformations_ready [OF assms, of "(6.0, 3.0, 6.0)" "0.0" "- 15.0" "0.0"
             "(0.0 + Xpos, 2.5 + Ypos, 0.0 + Zpos)"]
  from t have fa: "ready ?a" "m_basicMeshes ?a = m_basicMeshes s"
    using SetTextureUVScale_frame [of _ 1 1] by (simp_all add: frame_def)
  from SetShaderTexture_returns [OF fa(1), of "''Jam_2''"]
  obtain s1 where e1: "SetShaderTexture ''Jam_2'' ?a = Inr s1" and f1: "frame ?a s1"
    by (auto simp: returns_def)
  from f1 fa have r1: "ready s1" "m_basicMeshes s1 = m_basicMeshes s"
    by (simp_all add: frame_def)
  let ?b = "SetTextureUVScale 1 1 (draw (DrawBoxMeshSide right) s1)"
  note d1 = draw_ready [OF r1(1), of "DrawBoxMeshSide right"]
  from d1 r1 have fb: "ready ?b" "\<exists>ds. length ds = 1 \<and> m_basicMeshes ?b = m_basicMeshes s @ ds"
    using SetTextureUVScale_frame [of _ 1 1] by (simp_all add: frame_def)
  from SetShaderTexture_returns [OF fb(1), of "''Jam''"]
  obtain s2 where e2: "SetShaderTexture ''Jam'' ?b = Inr s2" and f2: "frame ?b s2"
    by (auto simp: returns_def)
  from f2 fb have r2: "ready s2" "\<exists>ds. length ds = 1 \<and> m_basicMeshes s2 = m_basicMeshes s @ ds"
    by (simp_all add: frame_def)
  let ?c = "SetTextureUVScale 1 1 (draw (DrawBoxMeshSide bottom) s2)"
  note d2 = draw_ready [OF r2(1), of "DrawBoxMeshSide bottom"]
  from d2 r2 have fc: "ready ?c" "\<exists>ds. length ds = 2 \<and> m_basicMeshes ?c = m_basicMeshes s @ ds"
    using SetTextureUVScale_frame [of _ 1 1] by (auto simp add: frame_def)
  from SetShaderTexture_returns [OF fc(1), of "''Nutrition_facts''"]
  obtain s3 where e3: "SetShaderTexture ''Nutrition_facts'' ?c = Inr s3" and f3: "frame ?c s3"
    by (auto simp: returns_def)
  from f3 fc have r3: "ready s3" "\<exists>ds. length ds = 2 \<and> m_basicMeshes s3 = m_basicMeshes s @ ds"
    by (simp_all add: frame_def)
  let ?d = "SetShaderColor 0.28 0.18 0.10 1.0 (draw (DrawBoxMeshSide left) s3)"
  note d3 = draw_ready [OF r3(1), of "DrawBoxMeshSide left"]
  from d3 r3 have fd: "ready ?d" "\<exists>ds. length ds = 3 \<and> m_basicMeshes ?d = m_basicMeshes s @ ds"
    using SetShaderColor_frame [of _ "0.28" "0.18" "0.10" "1.0"] by (auto simp add: frame_def)
  from SetShaderMaterial_returns [OF fd(1), of junk "''brown_glass_material''"]
  obtain s4 where e4: "SetShaderMaterial junk ''brown_glass_material'' ?d = Inr s4"
    and f4: "frame ?d s4"
    by (auto simp: returns_def)
  from f4 fd have r4: "ready s4" "\<exists>ds. length ds = 3 \<and> m_basicMeshes s4 = m_basicMeshes s @ ds"
    by (simp_all add: frame_def)
  note d4 = draw_ready [OF r4(1), of "DrawBoxMeshSide front"]
  from d4 r4 have fin: "ready (draw (DrawBoxMeshSide front) s4) \<and>
      (\<exists>ds. length ds = 4 \<and> m_basicMeshes (draw (DrawBoxMeshSide front) s4) = m_basicMeshes s @ ds)"
    by auto
  show ?thesis
    unfolding RenderJam_body_def Let_def
    apply (rule returns_bind)
    apply (simp only: e1)
    apply (rule returns_Inr)
    apply (rule returns_bind)
    apply (simp only: e2)
    apply (rule returns_Inr)
    apply (rule returns_bind)
    apply (simp only: e3)
    apply (rule returns_Inr)
    apply (rule returns_bind)
    apply (simp only: e4)
    apply (rule returns_Inr)
    apply (rule returns_Inr)
    apply (rule fin)
    done
qed

text \<open>
  The position of the base box, for every origin offset: the draw of the base box is the
  fifth draw of \<open>RenderJam\<close>, and the matrix staged for it has the translation
  \<open>(0 + Xpos, 0.5 + Ypos, 0 + Zpos)\<close>.
\<close>

lemma RenderJam_base_box:
  assumes "ready s"
  shows "\<exists>s' sm.
           RenderJam Xpos Ypos Zpos junk s = Inr s' \<and>
           length (m_basicMeshes s') = length (m_basicMeshes s) + 9 \<and>
           m_basicMeshes s' ! (length (m_basicMeshes s) + 4) = (DrawBoxMesh, Some sm) \<and>
           staged_model sm =
             Some (modelView (6.0, 1.0, 6.0) 0.0 (- 15.0) 0.0
                     (0.0 + Xpos, 0.50 + Ypos, 0.0 + Zpos))"
proof -
  from RenderJam_body_returns [OF assms, of Xpos Ypos Zpos junk]
  obtain s1 ds1 where b1: "RenderJam_body Xpos Ypos Zpos junk s = Inr s1" and r1: "ready s1"
    and m1: "length ds1 = 4" "m_basicMeshes s1 = m_basicMeshes s @ ds1"
    by (auto simp: returns_def)
  from RenderJam_base_returns [OF r1, of Xpos Ypos Zpos junk]
  obtain s2 sm where b2: "RenderJam_base Xpos Ypos Zpos junk s1 = Inr s2" and r2: "ready s2"
    and m2: "m_basicMeshes s2 = m_basicMeshes s1 @ [(DrawBoxMesh, Some sm)]"
    and sm: "staged_model sm =
               Some (modelView (6.0, 1.0, 6.0) 0.0 (- 15.0) 0.0
                       (0.0 + Xpos, 0.50 + Ypos, 0.0 + Zpos))"
    by (auto simp: returns_def)
  from RenderJam_upper_body_returns [OF r2, of Xpos Ypos Zpos junk]
  obtain s3 ds3 where b3: "RenderJam_upper_body Xpos Ypos Zpos junk s2 = Inr s3"
    and r3: "ready s3"
    and m3: "length ds3 = 1" "m_basicMeshes s3 = m_basicMeshes s2 @ ds3"
    by (auto simp: returns_def)
  from RenderJam_neck_returns [OF r3, of Xpos Ypos Zpos junk]
  obtain s4 ds4 where b4: "RenderJam_neck Xpos Ypos Zpos junk s3 = Inr s4" and r4: "ready s4"
    and m4: "length ds4 = 1" "m_basicMeshes s4 = m_basicMeshes s3 @ ds4"
    by (auto simp: returns_def)
  from RenderJam_lid_returns [OF r4, of Xpos Ypos Zpos junk]
  obtain s5 ds5 where b5: "RenderJam_lid Xpos Ypos Zpos junk s4 = Inr s5"
    and m5: "length ds5 = 2" "m_basicMeshes s5 = m_basicMeshes s4 @ ds5"
    by (auto simp: returns_def)
  have run: "RenderJam Xpos Ypos Zpos junk s = Inr s5"
    by (simp add: RenderJam_def bind_err_def b1 b2 b3 b4 b5)
  have all: "m_basicMeshes s5
               = (m_basicMeshes s @ ds1) @ (DrawBoxMesh, Some sm) # (ds3 @ ds4 @ ds5)"
    by (simp add: m1 m2 m3 m4 m5)
  have len: "length (m_basicMeshes s5) = length (m_basicMeshes s) + 9"
    by (simp add: all m1 m3 m4 m5)
  have "length (m_basicMeshes s) + 4 = length (m_basicMeshes s @ ds1)"
    by (simp add: m1)
  then have nth: "m_basicMeshes s5 ! (length (m_basicMeshes s) + 4) = (DrawBoxMesh, Some sm)"
    unfolding all by (simp only: nth_append_length)
  from run len nth sm show ?thesis by blast
qed

text \<open>
  Claim C9. \<open>RenderScene\<close> renders the jam jar with \<open>RenderJam(9.0, 0.001, -4.0)\<close>.
  On a scene manager that is ready, this call returns, and the draw of the base box,
  the fifth draw of the call, is made with a model matrix whose translation is the
  authored position (0, 0.5, 0) plus the offset, which is (9, 0.501, -4); the matrix
  takes the centre of the box mesh, the origin, to that point.
\<close>

theorem RenderJam_base_box_position:
  assumes "m_pShaderManager s = Some sm0"
    and "m_loadedTextures s \<le> int (length (m_textureIDs s))"
  shows "\<exists>s' sm M.
           RenderJam 9.0 0.001 (- 4.0) junk s = Inr s' \<and>
           length (m_basicMeshes s') = length (m_basicMeshes s) + 9 \<and>
           m_basicMeshes s' ! (length (m_basicMeshes s) + 4) = (DrawBoxMesh, Some sm) \<and>
           staged_model sm = Some M \<and>
           translation_of M = (0 + 9, 0.5 + 0.001, 0 + (- 4), 1) \<and>
           translation_of M = (9, 0.501, - 4, 1) \<and>
           mat4_apply M (0, 0, 0, 1) = (9, 0.501, - 4, 1)"
proof -
  from assms have "ready s" by (simp add: ready_def)
  from RenderJam_base_box [OF this, of "9.0" "0.001" "- 4.0" junk]
  obtain s' sm where run: "RenderJam 9.0 0.001 (- 4.0) junk s = Inr s'"
    and len: "length (m_basicMeshes s') = length (m_basicMeshes s) + 9"
    and nth: "m_basicMeshes s' ! (length (m_basicMeshes s) + 4) = (DrawBoxMesh, Some sm)"
    and sm: "staged_model sm =
               Some (modelView (6.0, 1.0, 6.0) 0.0 (- 15.0) 0.0
                       (0.0 + 9.0, 0.50 + 0.001, 0.0 + (- 4.0)))"
    by blast
  let ?M = "modelView (6.0, 1.0, 6.0) 0.0 (- 15.0) 0.0 (0.0 + 9.0, 0.50 + 0.001, 0.0 + (- 4.0))"
  have t: "translation_of ?M = (9, 0.501, - 4, 1)"
    by (simp add: translation_of_modelView)
  have t': "translation_of ?M = (0 + 9, 0.5 + 0.001, 0 + (- 4), 1)"
    by (simp add: translation_of_modelView)
  have a: "mat4_apply ?M (0, 0, 0, 1) = (9, 0.501, - 4, 1)"
    by (simp only: mat4_apply_origin t)
  from run len nth sm t t' a show ?thesis by blast
qed

text \<open>
  The scene with the six materials and no texture: the call returns, and the fifth of
  its nine draws is the base box at (9, 0.501, -4).
\<close>

theorem RenderJam_base_box_position_witness:
  "\<exists>s' sm M.
     RenderJam 9.0 0.001 (- 4.0) example_material scene_with_materials = Inr s' \<and>
     length (m_basicMeshes s') = 9 \<and>
     m_basicMeshes s' ! 4 = (DrawBoxMesh, Some sm) \<and>
     staged_model sm = Some M \<and>
     translation_of M = (9, 0.501, - 4, 1)"
proof -
  have 1: "m_pShaderManager scene_with_materials = Some []"
    by (simp add: scene_with_materials_def DefineObjectMaterials_def example_scene_def)
  have 2: "m_loadedTextures scene_with_materials
             \<le> int (length (m_textureIDs scene_with_materials))"
    by (simp add: scene_with_materials_def DefineObjectMaterials_def example_scene_def)
  have 3: "m_basicMeshes scene_with_materials = []"
    by (simp add: scene_with_materials_def DefineObjectMaterials_def example_scene_def)
  from RenderJam_base_box_position [OF 1 2, of example_material]
  show ?thesis unfolding 3 by (simp only: list.size add_0) blast
qed

end
